theory Spec2Isabelle
  imports Complex_Main "HOL-Library.AList"
begin

section \<open>Values of the host language\<close>

text \<open>
  Python numbers as they reach the data model: an \<open>int\<close> or a finite \<open>float\<close>. The two
  are kept apart because \<open>str\<close> renders them differently; comparisons read both through
  \<open>num_val\<close>. The IEEE special values (\<open>nan\<close>, \<open>inf\<close>) are outside the model.
\<close>

datatype number = PyInt int | PyFloat real

fun num_val :: "number \<Rightarrow> real" where
  "num_val (PyInt i) = of_int i"
| "num_val (PyFloat x) = x"

text \<open>
  The values a parameter bag (\<open>dict[str, Any]\<close>) can hold once it has come through the
  tool interface or a structured file: JSON trees. An object is an insertion-ordered
  association list, looked up with \<open>map_of\<close>.
\<close>

datatype json =
    JNull
  | JBool bool
  | JNum number
  | JStr string
  | JArr "json list"
  | JObj "(string \<times> json) list"

type_synonym params = "(string \<times> json) list"

text \<open>
  Library functions of the host language that the source calls and whose definitions are
  not part of the repository: \<open>str\<close> on a value (also what an f-string does to a
  number or a parameter value), and the path join of \<open>pathlib\<close>. Paths are strings;
  \<open>Path(p)\<close> followed by \<open>str\<close> is taken to give \<open>p\<close> back.
\<close>

record pylib =
  py_str :: "json \<Rightarrow> string"
  path_join :: "string \<Rightarrow> string \<Rightarrow> string"

definition nl :: string where
  "nl = [CHR 0x0A]"

text \<open>\<open>sep.join(xs)\<close>\<close>

fun str_join :: "string \<Rightarrow> string list \<Rightarrow> string" where
  "str_join sep [] = []"
| "str_join sep [x] = x"
| "str_join sep (x # y # ys) = x @ sep @ str_join sep (y # ys)"

text \<open>\<open>s.split(sep, 1)\<close> for a one-character separator: at most one cut, at the first \<open>sep\<close>.\<close>

definition str_split1 :: "char \<Rightarrow> string \<Rightarrow> string list" where
  "str_split1 sep s =
     (if sep \<in> set s
      then [takeWhile (\<lambda>c. c \<noteq> sep) s, tl (dropWhile (\<lambda>c. c \<noteq> sep) s)]
      else [s])"

section \<open>models.py\<close>

datatype SimulationStatus = IDLE | RUNNING | PAUSED | COMPLETED | FAILED | STOPPED

record Position =
  latitude :: number
  longitude :: number
  altitude_m :: number

definition Position_to_afsim :: "pylib \<Rightarrow> Position \<Rightarrow> string" where
  "Position_to_afsim L p =
     py_str L (JNum (latitude p)) @ ''deg '' @ py_str L (JNum (longitude p)) @ ''deg ''
       @ py_str L (JNum (altitude_m p)) @ ''m''"

record Component =
  name :: string
  component_type :: string
  parameters :: params

text \<open>
  \<open>Component.to_afsim_block\<close>: the local list \<open>lines\<close>, then its join. A str-enum kind
  is the string that is its value.
\<close>

definition Component_block_lines :: "pylib \<Rightarrow> Component \<Rightarrow> string list" where
  "Component_block_lines L c =
     (let comp_type = component_type c in
      [''  '' @ comp_type @ '' '' @ Component.name c]
      @ map (\<lambda>(k, v). ''    '' @ k @ '' '' @ py_str L v) (Component.parameters c)
      @ [''  end_'' @ last (str_split1 (CHR ''_'') comp_type)])"

definition Component_to_afsim_block :: "pylib \<Rightarrow> Component \<Rightarrow> string" where
  "Component_to_afsim_block L c = str_join nl (Component_block_lines L c)"

record Platform =
  name :: string
  platform_type :: string
  position :: Position
  components :: "Component list"
  parameters :: params

definition Platform_to_afsim_block :: "pylib \<Rightarrow> Platform \<Rightarrow> string" where
  "Platform_to_afsim_block L p =
     str_join nl
       ([''platform '' @ Platform.name p,
         ''  platform_type '' @ platform_type p,
         ''  position '' @ Position_to_afsim L (position p)]
        @ map (\<lambda>(k, v). ''  '' @ k @ '' '' @ py_str L v) (Platform.parameters p)
        @ map (Component_to_afsim_block L) (components p)
        @ [''end_platform''])"

record Scenario =
  name :: string
  scenario_id :: string
  description :: string
  duration_s :: number
  time_step_s :: number
  platforms :: "Platform list"
  parameters :: params
  file_path :: "string option"

definition Scenario_to_afsim :: "pylib \<Rightarrow> Scenario \<Rightarrow> string" where
  "Scenario_to_afsim L s =
     str_join nl
       ([''# Scenario: '' @ Scenario.name s,
         ''# '' @ description s,
         '''',
         ''simulation_duration '' @ py_str L (JNum (duration_s s)) @ ''s'',
         ''time_step '' @ py_str L (JNum (time_step_s s)) @ ''s'',
         '''']
        @ map (\<lambda>(k, v). k @ '' '' @ py_str L v) (Scenario.parameters s)
        @ (if Scenario.parameters s \<noteq> [] then [''''] else [])
        @ concat (map (\<lambda>p. [Platform_to_afsim_block L p, '''']) (platforms s)))"

record SimulationRun =
  run_id :: string
  scenario_name :: string
  scenario_file :: string
  status :: SimulationStatus
  start_time :: "string option"
  end_time :: "string option"
  pid :: "int option"
  output_dir :: string
  log_file :: string
  error_message :: string
  result_files :: "string list"

section \<open>Errors, files and the state of the server\<close>

text \<open>
  The exceptions the modelled code raises or lets through, by their Python class. The spec
  calls a \<open>KeyError\<close> or \<open>FileNotFoundError\<close> \<open>NotFound\<close>, and a \<open>ValueError\<close>
  \<open>InvalidArgument\<close> (empty name) or \<open>AlreadyExists\<close> (duplicate platform).

  \<open>IllTyped\<close> is not a Python exception. It marks the border of the typed model: a
  structured file that holds, where the dataclass annotations expect a string, a number or
  a dict, a value of another type. Python stores such a value unchecked; the model stops
  there and says nothing about that input.
\<close>

datatype error =
    KeyError string
  | ValueError string
  | FileNotFoundError string
  | AttributeError
  | TypeError
  | JSONDecodeError
  | OSError string
  | IllTyped

definition bind_err :: "error + 'a \<Rightarrow> ('a \<Rightarrow> error + 'b) \<Rightarrow> error + 'b" where
  "bind_err r f = (case r of Inl e \<Rightarrow> Inl e | Inr x \<Rightarrow> f x)"

text \<open>A loop or comprehension whose body may raise: the first exception ends it.\<close>

fun map_err :: "('a \<Rightarrow> error + 'b) \<Rightarrow> 'a list \<Rightarrow> error + 'b list" where
  "map_err f [] = Inr []"
| "map_err f (x # xs) =
     (case f x of
        Inl e \<Rightarrow> Inl e
      | Inr y \<Rightarrow> (case map_err f xs of Inl e \<Rightarrow> Inl e | Inr ys \<Rightarrow> Inr (y # ys)))"

definition quoted :: "string \<Rightarrow> string" where
  "quoted s = [CHR 0x27] @ s @ [CHR 0x27]"

text \<open>
  A file on disk, read through \<open>json.loads\<close>: \<open>Json j\<close> when its text is a JSON document
  denoting \<open>j\<close> (what \<open>json.dumps\<close> wrote, as \<open>json.loads\<close> reads it back), \<open>Text t\<close>
  when it is some other text \<open>t\<close>.
\<close>

datatype file_content = Text string | Json json

text \<open>
  What the file system answers to the calls that change it. The source makes them outside
  any \<open>try\<close>, so an exception they raise leaves the calling operation at that point.
  \<open>mkdir(parents=True, exist_ok=True)\<close> returns or raises; directories are not part of
  the state, so a call that returns shows in nothing else. \<open>write_text\<close> returns, the
  file then holding the text, or raises; \<open>WriteRaised e left\<close> says what the failed call
  left behind: \<open>None\<close> when the file is as it was (it could not be opened),
  \<open>Some c\<close> when it now holds \<open>c\<close> (it was truncated or partly written).
\<close>

datatype io_outcome = Succeeded | Raised error

datatype write_outcome = Written | WriteRaised error "file_content option"

text \<open>
  The two managers and the controller share one state. \<open>active_scenarios\<close> and \<open>runs\<close>
  are the dicts \<open>_active_scenarios\<close> and \<open>_runs\<close>, in insertion order. A run is a mutable
  object that the controller hands out by reference and changes in place, so the run
  objects live in a store (\<open>run_objects\<close>, the address of an object is its index) and the
  dict \<open>runs\<close> maps a run id to an address. \<open>spawned\<close> lists the child processes started:
  process id, command line and working directory.
\<close>

record world =
  scenarios_dir :: string
  active_scenarios :: "(string \<times> Scenario) list"
  afsim_binary :: string
  runs_output_dir :: string
  run_objects :: "SimulationRun list"
  runs :: "(string \<times> nat) list"
  disk :: "(string \<times> file_content) list"
  spawned :: "(int \<times> string list \<times> string) list"

text \<open>
  The state once \<open>ScenarioManager(scenarios_dir)\<close> and
  \<open>SimulationController(sm, afsim_binary, output_dir)\<close> have returned, on a disk \<open>d\<close>.
\<close>

definition init_world :: "string \<Rightarrow> string \<Rightarrow> string \<Rightarrow> (string \<times> file_content) list \<Rightarrow> world" where
  "init_world sdir binary odir d =
     \<lparr>scenarios_dir = sdir, active_scenarios = [], afsim_binary = binary,
      runs_output_dir = odir, run_objects = [], runs = [], disk = d, spawned = []\<rparr>"

section \<open>scenario\_manager.py\<close>

text \<open>\<open>ScenarioManager._get\<close>, which \<open>get_scenario\<close> returns unchanged.\<close>

definition get_scenario :: "world \<Rightarrow> string \<Rightarrow> error + Scenario" where
  "get_scenario w sid =
     (case map_of (active_scenarios w) sid of
        None \<Rightarrow> Inl (KeyError (''Scenario '' @ quoted sid @ '' not found.''))
      | Some s \<Rightarrow> Inr s)"

text \<open>\<open>create_scenario\<close>; \<open>uuid\<close> is what \<open>uuid.uuid4()\<close> returns for the new object.\<close>

definition create_scenario ::
  "world \<Rightarrow> string \<Rightarrow> string \<Rightarrow> string \<Rightarrow> number \<Rightarrow> number \<Rightarrow> (error + Scenario) \<times> world" where
  "create_scenario w uuid nm descr dur step =
     (if nm = [] then (Inl (ValueError ''Scenario name must not be empty.''), w)
      else
        let scenario = \<lparr>Scenario.name = nm, scenario_id = uuid, description = descr,
                          duration_s = dur, time_step_s = step, platforms = [],
                          parameters = [], file_path = None\<rparr>
        in (Inr scenario,
            w\<lparr>active_scenarios := AList.update (scenario_id scenario) scenario (active_scenarios w)\<rparr>))"

text \<open>Reading a JSON value the way the untyped code does.\<close>

definition dict_get :: "json \<Rightarrow> string \<Rightarrow> json \<Rightarrow> error + json" where
  \<comment> \<open>\<open>d.get(k, default)\<close>; only a dict has \<open>get\<close>\<close>
  "dict_get d k dflt =
     (case d of
        JObj kvs \<Rightarrow> Inr (case map_of kvs k of None \<Rightarrow> dflt | Some v \<Rightarrow> v)
      | _ \<Rightarrow> Inl AttributeError)"

definition dict_item :: "json \<Rightarrow> string \<Rightarrow> error + json" where
  \<comment> \<open>\<open>d[k]\<close> for a string \<open>k\<close>\<close>
  "dict_item d k =
     (case d of
        JObj kvs \<Rightarrow> (case map_of kvs k of None \<Rightarrow> Inl (KeyError (quoted k)) | Some v \<Rightarrow> Inr v)
      | _ \<Rightarrow> Inl TypeError)"

definition iter_json :: "json \<Rightarrow> error + json list" where
  \<comment> \<open>\<open>for x in v\<close>: a list gives its elements, a dict its keys, a string its characters\<close>
  "iter_json v =
     (case v of
        JArr xs \<Rightarrow> Inr xs
      | JObj kvs \<Rightarrow> Inr (map (\<lambda>k. JStr k) (remdups (map fst kvs)))
      | JStr s \<Rightarrow> Inr (map (\<lambda>c. JStr [c]) s)
      | _ \<Rightarrow> Inl TypeError)"

definition as_str :: "json \<Rightarrow> error + string" where
  "as_str v = (case v of JStr s \<Rightarrow> Inr s | _ \<Rightarrow> Inl IllTyped)"

definition as_num :: "json \<Rightarrow> error + number" where
  "as_num v = (case v of JNum n \<Rightarrow> Inr n | _ \<Rightarrow> Inl IllTyped)"

definition as_params :: "json \<Rightarrow> error + params" where
  "as_params v = (case v of JObj kvs \<Rightarrow> Inr kvs | _ \<Rightarrow> Inl IllTyped)"

text \<open>
  \<open>_scenario_to_dict\<close>. The two nested comprehensions of the source are the two helper
  functions.
\<close>

definition component_to_dict :: "Component \<Rightarrow> json" where
  "component_to_dict c =
     JObj [(''name'', JStr (Component.name c)),
           (''component_type'', JStr (component_type c)),
           (''parameters'', JObj (Component.parameters c))]"

definition platform_to_dict :: "Platform \<Rightarrow> json" where
  "platform_to_dict p =
     JObj [(''name'', JStr (Platform.name p)),
           (''platform_type'', JStr (platform_type p)),
           (''position'', JObj [(''latitude'', JNum (latitude (position p))),
                                (''longitude'', JNum (longitude (position p))),
                                (''altitude_m'', JNum (altitude_m (position p)))]),
           (''parameters'', JObj (Platform.parameters p)),
           (''components'', JArr (map component_to_dict (components p)))]"

definition scenario_to_dict :: "Scenario \<Rightarrow> json" where
  "scenario_to_dict scenario =
     JObj [(''scenario_id'', JStr (scenario_id scenario)),
           (''name'', JStr (Scenario.name scenario)),
           (''description'', JStr (description scenario)),
           (''duration_s'', JNum (duration_s scenario)),
           (''time_step_s'', JNum (time_step_s scenario)),
           (''parameters'', JObj (Scenario.parameters scenario)),
           (''platforms'', JArr (map platform_to_dict (platforms scenario)))]"

text \<open>
  \<open>_scenario_from_dict\<close>, in the source's order of evaluation: every platform first
  (its position, its components, then its own fields), the scenario's fields last. The
  constructor calls are where a value meets its annotated type.
\<close>

definition component_from_dict :: "json \<Rightarrow> error + Component" where
  "component_from_dict cd =
     bind_err (dict_item cd ''name'') (\<lambda>n.
     bind_err (dict_item cd ''component_type'') (\<lambda>t.
     bind_err (dict_get cd ''parameters'' (JObj [])) (\<lambda>ps.
     bind_err (as_str n) (\<lambda>n'.
     bind_err (as_str t) (\<lambda>t'.
     bind_err (as_params ps) (\<lambda>ps'.
       Inr \<lparr>Component.name = n', component_type = t', parameters = ps'\<rparr>))))))"

definition platform_from_dict :: "json \<Rightarrow> error + Platform" where
  "platform_from_dict pd =
     bind_err (dict_get pd ''position'' (JObj [])) (\<lambda>pos_data.
     bind_err (dict_get pos_data ''latitude'' (JNum (PyFloat 0))) (\<lambda>lat.
     bind_err (dict_get pos_data ''longitude'' (JNum (PyFloat 0))) (\<lambda>lon.
     bind_err (dict_get pos_data ''altitude_m'' (JNum (PyFloat 0))) (\<lambda>alt.
     bind_err (as_num lat) (\<lambda>lat'.
     bind_err (as_num lon) (\<lambda>lon'.
     bind_err (as_num alt) (\<lambda>alt'.
     bind_err (dict_get pd ''components'' (JArr [])) (\<lambda>cds.
     bind_err (iter_json cds) (\<lambda>cdl.
     bind_err (map_err component_from_dict cdl) (\<lambda>comps.
     bind_err (dict_item pd ''name'') (\<lambda>n.
     bind_err (dict_get pd ''platform_type'' (JStr ''wsf_platform'')) (\<lambda>pt.
     bind_err (dict_get pd ''parameters'' (JObj [])) (\<lambda>ps.
     bind_err (as_str n) (\<lambda>n'.
     bind_err (as_str pt) (\<lambda>pt'.
     bind_err (as_params ps) (\<lambda>ps'.
       Inr \<lparr>Platform.name = n', platform_type = pt',
            position = \<lparr>latitude = lat', longitude = lon', altitude_m = alt'\<rparr>,
            components = comps, parameters = ps'\<rparr>))))))))))))))))"

definition scenario_from_dict :: "json \<Rightarrow> error + Scenario" where
  "scenario_from_dict data =
     bind_err (dict_get data ''platforms'' (JArr [])) (\<lambda>pds.
     bind_err (iter_json pds) (\<lambda>pdl.
     bind_err (map_err platform_from_dict pdl) (\<lambda>plats.
     bind_err (dict_item data ''name'') (\<lambda>n.
     bind_err (dict_get data ''scenario_id'' (JStr [])) (\<lambda>sid.
     bind_err (dict_get data ''description'' (JStr [])) (\<lambda>descr.
     bind_err (dict_get data ''duration_s'' (JNum (PyFloat 3600))) (\<lambda>dur.
     bind_err (dict_get data ''time_step_s'' (JNum (PyFloat 1))) (\<lambda>step.
     bind_err (dict_get data ''parameters'' (JObj [])) (\<lambda>ps.
     bind_err (as_str n) (\<lambda>n'.
     bind_err (as_str sid) (\<lambda>sid'.
     bind_err (as_str descr) (\<lambda>descr'.
     bind_err (as_num dur) (\<lambda>dur'.
     bind_err (as_num step) (\<lambda>step'.
     bind_err (as_params ps) (\<lambda>ps'.
       Inr \<lparr>Scenario.name = n', scenario_id = sid', description = descr',
            duration_s = dur', time_step_s = step', platforms = plats,
            parameters = ps', file_path = None\<rparr>)))))))))))))))"

definition load_scenario_json :: "world \<Rightarrow> string \<Rightarrow> (error + Scenario) \<times> world" where
  "load_scenario_json w path =
     (case map_of (disk w) path of
        None \<Rightarrow> (Inl (FileNotFoundError (''Scenario JSON file not found: '' @ path)), w)
      | Some (Text t) \<Rightarrow> (Inl JSONDecodeError, w)
      | Some (Json data) \<Rightarrow>
          (case scenario_from_dict data of
             Inl e \<Rightarrow> (Inl e, w)
           | Inr loaded \<Rightarrow>
               let scenario = loaded\<lparr>file_path := Some path\<rparr>
               in (Inr scenario,
                   w\<lparr>active_scenarios :=
                        AList.update (scenario_id scenario) scenario (active_scenarios w)\<rparr>)))"

text \<open>
  \<open>save_scenario\<close> and \<open>save_scenario_json\<close>; \<open>None\<close> for the path is the default
  argument, \<open>mk\<close> is the outcome of \<open>path.parent.mkdir\<close> and \<open>wr\<close> that of
  \<open>path.write_text\<close>. \<open>save_scenario\<close> sets the scenario's \<open>file_path\<close> once the file
  is written.
\<close>

definition save_scenario ::
  "pylib \<Rightarrow> world \<Rightarrow> string \<Rightarrow> string option \<Rightarrow> io_outcome \<Rightarrow> write_outcome
     \<Rightarrow> (error + string) \<times> world" where
  "save_scenario L w sid fp mk wr =
     (case get_scenario w sid of
        Inl e \<Rightarrow> (Inl e, w)
      | Inr scenario \<Rightarrow>
          let path = (case fp of
                        None \<Rightarrow> path_join L (scenarios_dir w) (Scenario.name scenario @ ''.afsim'')
                      | Some f \<Rightarrow> f)
          in (case mk of
                Raised e \<Rightarrow> (Inl e, w)
              | Succeeded \<Rightarrow>
                  (case wr of
                     WriteRaised e left \<Rightarrow>
                       (Inl e,
                        (case left of
                           None \<Rightarrow> w
                         | Some c \<Rightarrow> w\<lparr>disk := AList.update path c (disk w)\<rparr>))
                   | Written \<Rightarrow>
                       (Inr path,
                        w\<lparr>disk := AList.update path (Text (Scenario_to_afsim L scenario)) (disk w),
                          active_scenarios :=
                            AList.update sid (scenario\<lparr>file_path := Some path\<rparr>)
                              (active_scenarios w)\<rparr>))))"

definition save_scenario_json ::
  "pylib \<Rightarrow> world \<Rightarrow> string \<Rightarrow> string option \<Rightarrow> io_outcome \<Rightarrow> write_outcome
     \<Rightarrow> (error + string) \<times> world" where
  "save_scenario_json L w sid fp mk wr =
     (case get_scenario w sid of
        Inl e \<Rightarrow> (Inl e, w)
      | Inr scenario \<Rightarrow>
          let path = (case fp of
                        None \<Rightarrow> path_join L (scenarios_dir w) (Scenario.name scenario @ ''.json'')
                      | Some f \<Rightarrow> f)
          in (case mk of
                Raised e \<Rightarrow> (Inl e, w)
              | Succeeded \<Rightarrow>
                  (case wr of
                     WriteRaised e left \<Rightarrow>
                       (Inl e,
                        (case left of
                           None \<Rightarrow> w
                         | Some c \<Rightarrow> w\<lparr>disk := AList.update path c (disk w)\<rparr>))
                   | Written \<Rightarrow>
                       (Inr path,
                        w\<lparr>disk := AList.update path (Json (scenario_to_dict scenario)) (disk w)\<rparr>))))"

text \<open>\<open>validate_scenario\<close>; the report is the returned dict.\<close>

record report =
  valid :: bool
  errors :: "string list"
  warnings :: "string list"

definition validate_scenario :: "pylib \<Rightarrow> world \<Rightarrow> string \<Rightarrow> error + report" where
  "validate_scenario L w sid =
     (case get_scenario w sid of
        Inl e \<Rightarrow> Inl e
      | Inr scenario \<Rightarrow>
          let errors1 = (if Scenario.name scenario = [] then [''Scenario name is empty.''] else []);
              errors2 = errors1 @
                (if num_val (duration_s scenario) \<le> 0
                 then [''Simulation duration must be positive (got ''
                         @ py_str L (JNum (duration_s scenario)) @ '').'']
                 else []);
              errors3 = errors2 @
                (if num_val (time_step_s scenario) \<le> 0
                 then [''Time step must be positive (got ''
                         @ py_str L (JNum (time_step_s scenario)) @ '').'']
                 else []);
              warnings1 = (if num_val (time_step_s scenario) > num_val (duration_s scenario)
                           then [''Time step is larger than duration.''] else []);
              warnings2 = warnings1 @
                (if platforms scenario = [] then [''Scenario has no platforms.''] else []);
              platform_names = map Platform.name (platforms scenario);
              errors4 = errors3 @
                (if length platform_names \<noteq> card (set platform_names)
                 then [''Duplicate platform names found.''] else [])
          in Inr \<lparr>valid = (length errors4 = 0), errors = errors4, warnings = warnings2\<rparr>)"

section \<open>entity\_manager.py\<close>

text \<open>
  The entity manager changes, in place, scenario and platform objects that it reaches
  through the scenario manager's dict. A scenario object is reachable only under its
  dict key, so the changed scenario is stored back under that key; a platform object
  found by \<open>_get_platform\<close> is the first of that name in the scenario's list, so the
  changed platform is stored back at that position.
\<close>

definition or_empty :: "params option \<Rightarrow> params" where
  \<comment> \<open>\<open>parameters or {}\<close>\<close>
  "or_empty ps = (case ps of None \<Rightarrow> [] | Some d \<Rightarrow> if d = [] then [] else d)"

definition or_default :: "string option \<Rightarrow> string \<Rightarrow> string" where
  \<comment> \<open>\<open>given or default\<close> on an optional string: \<open>None\<close> and the empty string are falsy\<close>
  "or_default given dflt = (case given of None \<Rightarrow> dflt | Some s \<Rightarrow> if s = [] then dflt else s)"

definition platform_info :: "Platform \<Rightarrow> json" where
  "platform_info platform =
     JObj [(''name'', JStr (Platform.name platform)),
           (''platform_type'', JStr (platform_type platform)),
           (''position'', JObj [(''latitude'', JNum (latitude (position platform))),
                                (''longitude'', JNum (longitude (position platform))),
                                (''altitude_m'', JNum (altitude_m (position platform)))]),
           (''component_count'', JNum (PyInt (int (length (components platform))))),
           (''parameters'', JObj (Platform.parameters platform))]"

definition component_info :: "Component \<Rightarrow> json" where
  "component_info component =
     JObj [(''name'', JStr (Component.name component)),
           (''component_type'', JStr (component_type component)),
           (''parameters'', JObj (Component.parameters component))]"

definition check_unique_platform :: "Scenario \<Rightarrow> string \<Rightarrow> error + unit" where
  "check_unique_platform scenario nm =
     (let names = set (map Platform.name (platforms scenario))
      in if nm \<in> names
         then Inl (ValueError (''Platform '' @ quoted nm @ '' already exists in scenario ''
                                @ quoted (Scenario.name scenario) @ ''.''))
         else Inr ())"

definition create_platform ::
  "world \<Rightarrow> string \<Rightarrow> string \<Rightarrow> string \<Rightarrow> number \<Rightarrow> number \<Rightarrow> number \<Rightarrow> params option
     \<Rightarrow> (error + json) \<times> world" where
  "create_platform w sid nm ptype lat lon alt ps =
     (case get_scenario w sid of
        Inl e \<Rightarrow> (Inl e, w)
      | Inr scenario \<Rightarrow>
          (case check_unique_platform scenario nm of
             Inl e \<Rightarrow> (Inl e, w)
           | Inr _ \<Rightarrow>
               let platform = \<lparr>Platform.name = nm, platform_type = ptype,
                                 position = \<lparr>latitude = lat, longitude = lon, altitude_m = alt\<rparr>,
                                 components = [], parameters = or_empty ps\<rparr>;
                   scenario' = scenario\<lparr>platforms := platforms scenario @ [platform]\<rparr>
               in (Inr (platform_info platform),
                   w\<lparr>active_scenarios := AList.update sid scenario' (active_scenarios w)\<rparr>)))"

definition delete_platform :: "world \<Rightarrow> string \<Rightarrow> string \<Rightarrow> (error + bool) \<times> world" where
  "delete_platform w sid platform_name =
     (case get_scenario w sid of
        Inl e \<Rightarrow> (Inl e, w)
      | Inr scenario \<Rightarrow>
          let before = length (platforms scenario);
              scenario' = scenario\<lparr>platforms :=
                            filter (\<lambda>p. Platform.name p \<noteq> platform_name) (platforms scenario)\<rparr>;
              removed = (length (platforms scenario') < before)
          in (Inr removed, w\<lparr>active_scenarios := AList.update sid scenario' (active_scenarios w)\<rparr>))"

text \<open>\<open>_get_platform\<close>: the first platform of that name.\<close>

definition get_platform :: "world \<Rightarrow> string \<Rightarrow> string \<Rightarrow> error + Platform" where
  "get_platform w sid platform_name =
     (case get_scenario w sid of
        Inl e \<Rightarrow> Inl e
      | Inr scenario \<Rightarrow>
          (case find (\<lambda>p. Platform.name p = platform_name) (platforms scenario) of
             Some p \<Rightarrow> Inr p
           | None \<Rightarrow> Inl (KeyError (''Platform '' @ quoted platform_name
                                     @ '' not found in scenario '' @ quoted sid @ ''.''))))"

fun replace_first :: "('a \<Rightarrow> bool) \<Rightarrow> 'a \<Rightarrow> 'a list \<Rightarrow> 'a list" where
  "replace_first P y [] = []"
| "replace_first P y (x # xs) = (if P x then y # xs else x # replace_first P y xs)"

text \<open>The write-back of a platform object changed in place (see above).\<close>

definition put_platform :: "world \<Rightarrow> string \<Rightarrow> string \<Rightarrow> Platform \<Rightarrow> world" where
  "put_platform w sid platform_name platform' =
     (case map_of (active_scenarios w) sid of
        None \<Rightarrow> w
      | Some scenario \<Rightarrow>
          w\<lparr>active_scenarios :=
              AList.update sid
                (scenario\<lparr>platforms :=
                   replace_first (\<lambda>p. Platform.name p = platform_name) platform'
                     (platforms scenario)\<rparr>)
                (active_scenarios w)\<rparr>)"

definition add_mover ::
  "world \<Rightarrow> string \<Rightarrow> string \<Rightarrow> string \<Rightarrow> string option \<Rightarrow> params option \<Rightarrow> (error + json) \<times> world" where
  "add_mover w sid platform_name mover_type mover_name ps =
     (case get_platform w sid platform_name of
        Inl e \<Rightarrow> (Inl e, w)
      | Inr platform \<Rightarrow>
          let comp_name = or_default mover_name (platform_name @ ''_mover'');
              comp = \<lparr>Component.name = comp_name, component_type = mover_type,
                      parameters = or_empty ps\<rparr>
          in (Inr (component_info comp),
              put_platform w sid platform_name
                (platform\<lparr>components := components platform @ [comp]\<rparr>)))"

definition add_sensor ::
  "world \<Rightarrow> string \<Rightarrow> string \<Rightarrow> string \<Rightarrow> string option \<Rightarrow> params option \<Rightarrow> (error + json) \<times> world" where
  "add_sensor w sid platform_name sensor_type sensor_name ps =
     (case get_platform w sid platform_name of
        Inl e \<Rightarrow> (Inl e, w)
      | Inr platform \<Rightarrow>
          let comp_name = or_default sensor_name (platform_name @ ''_sensor'');
              comp = \<lparr>Component.name = comp_name, component_type = sensor_type,
                      parameters = or_empty ps\<rparr>
          in (Inr (component_info comp),
              put_platform w sid platform_name
                (platform\<lparr>components := components platform @ [comp]\<rparr>)))"

definition add_weapon ::
  "world \<Rightarrow> string \<Rightarrow> string \<Rightarrow> string \<Rightarrow> string option \<Rightarrow> params option \<Rightarrow> (error + json) \<times> world" where
  "add_weapon w sid platform_name weapon_type weapon_name ps =
     (case get_platform w sid platform_name of
        Inl e \<Rightarrow> (Inl e, w)
      | Inr platform \<Rightarrow>
          let comp_name = or_default weapon_name (platform_name @ ''_weapon'');
              comp = \<lparr>Component.name = comp_name, component_type = weapon_type,
                      parameters = or_empty ps\<rparr>
          in (Inr (component_info comp),
              put_platform w sid platform_name
                (platform\<lparr>components := components platform @ [comp]\<rparr>)))"

definition remove_component :: "world \<Rightarrow> string \<Rightarrow> string \<Rightarrow> string \<Rightarrow> (error + bool) \<times> world" where
  "remove_component w sid platform_name component_name =
     (case get_platform w sid platform_name of
        Inl e \<Rightarrow> (Inl e, w)
      | Inr platform \<Rightarrow>
          let before = length (components platform);
              platform' = platform\<lparr>components :=
                            filter (\<lambda>c. Component.name c \<noteq> component_name) (components platform)\<rparr>;
              removed = (length (components platform') < before)
          in (Inr removed, put_platform w sid platform_name platform'))"

section \<open>simulation\_controller.py\<close>

text \<open>
  What the operating system answers when the controller calls it. \<open>spawn_outcome\<close> is
  the outcome of the \<open>try\<close> block of \<open>run_simulation\<close>: opening the log file raised,
  \<open>Popen\<close> raised (each with the text of the exception), or a child with the given
  process id was started. \<open>signal_outcome\<close> is the outcome of \<open>os.kill\<close>: the signal
  was delivered, \<open>ProcessLookupError\<close> was raised, or another \<open>OSError\<close>
  (such as \<open>PermissionError\<close>) was raised, with its text.
\<close>

datatype spawn_outcome = OpenFailed string | PopenFailed string | Started int

datatype signal_outcome = Delivered | NoSuchProcess | SignalFailed string

text \<open>
  The answers one call of \<open>run_simulation\<close> consumes, in the order the source asks:
  the outcomes of the \<open>mkdir\<close> and the \<open>write_text\<close> inside \<open>save_scenario\<close>, the
  \<open>uuid4\<close> of the new run, the outcome of the \<open>mkdir\<close> of the run's output directory,
  the clock at the first and second call of \<open>_now()\<close>, whether the configured binary
  exists when \<open>Path(...).exists()\<close> is asked, and the outcome of the spawn.
\<close>

record run_env =
  save_mkdir :: io_outcome
  save_write :: write_outcome
  new_uuid :: string
  out_mkdir :: io_outcome
  now1 :: string
  now2 :: string
  binary_exists :: bool
  spawn :: spawn_outcome

definition set_afsim_binary :: "world \<Rightarrow> string \<Rightarrow> world" where
  "set_afsim_binary w binary_path = w\<lparr>afsim_binary := binary_path\<rparr>"

definition get_afsim_binary :: "world \<Rightarrow> string" where
  "get_afsim_binary w = afsim_binary w"

text \<open>A change to the run object at address \<open>a\<close>.\<close>

definition set_run :: "world \<Rightarrow> nat \<Rightarrow> SimulationRun \<Rightarrow> world" where
  "set_run w a r = w\<lparr>run_objects := (run_objects w)[a := r]\<rparr>"

text \<open>
  \<open>run_simulation\<close> returns the reference to the new run object; the object is
  \<open>run_objects w' ! a\<close> in the state returned with it. An exception of
  \<open>save_scenario\<close> leaves before any run exists; an exception of the \<open>mkdir\<close> of the
  output directory leaves after the run has been registered, still IDLE.
\<close>

definition run_simulation ::
  "pylib \<Rightarrow> world \<Rightarrow> string \<Rightarrow> string list option \<Rightarrow> bool \<Rightarrow> run_env \<Rightarrow> (error + nat) \<times> world" where
  "run_simulation L w sid extra_args dry_run env =
     (case get_scenario w sid of
        Inl e \<Rightarrow> (Inl e, w)
      | Inr scenario \<Rightarrow>
          (case save_scenario L w sid None (save_mkdir env) (save_write env) of
             (Inl e, w1) \<Rightarrow> (Inl e, w1)
           | (Inr scenario_file', w1) \<Rightarrow>
               let run = \<lparr>run_id = new_uuid env,
                          scenario_name = Scenario.name scenario,
                          scenario_file = scenario_file',
                          status = IDLE, start_time = None, end_time = None, pid = None,
                          output_dir = path_join L (runs_output_dir w1) (Scenario.name scenario),
                          log_file = [], error_message = [], result_files = []\<rparr>;
                   a = length (run_objects w1);
                   w2 = w1\<lparr>run_objects := run_objects w1 @ [run],
                           runs := AList.update (run_id run) a (runs w1)\<rparr>
               in
               (case out_mkdir env of
                  Raised e \<Rightarrow> (Inl e, w2)
                | Succeeded \<Rightarrow>
               if dry_run \<or> afsim_binary w2 = [] then
                 (Inr a, set_run w2 a (run\<lparr>status := COMPLETED,
                                            start_time := Some (now1 env),
                                            end_time := Some (now2 env)\<rparr>))
               else if \<not> binary_exists env then
                 (Inr a, set_run w2 a (run\<lparr>status := FAILED,
                                            error_message :=
                                              ''AFSIM binary not found: '' @ afsim_binary w2\<rparr>))
               else
                 let cmd = [afsim_binary w2, scenario_file']
                             @ (case extra_args of None \<Rightarrow> [] | Some xs \<Rightarrow> xs);
                     log_file' = path_join L (output_dir run) ''simulation.log'';
                     run1 = run\<lparr>log_file := log_file'\<rparr>
                 in (case spawn env of
                       OpenFailed msg \<Rightarrow>
                         (Inr a, set_run w2 a (run1\<lparr>status := FAILED, error_message := msg\<rparr>))
                     | PopenFailed msg \<Rightarrow>
                         (Inr a,
                          set_run (w2\<lparr>disk := AList.update log_file' (Text []) (disk w2)\<rparr>) a
                            (run1\<lparr>status := FAILED, error_message := msg\<rparr>))
                     | Started p \<Rightarrow>
                         (Inr a,
                          set_run (w2\<lparr>disk := AList.update log_file' (Text []) (disk w2),
                                      spawned := spawned w2 @ [(p, cmd, output_dir run)]\<rparr>) a
                            (run1\<lparr>pid := Some p, status := RUNNING,
                                   start_time := Some (now1 env)\<rparr>))))))"

text \<open>\<open>_get_run\<close>: the reference stored under the run id.\<close>

definition get_run :: "world \<Rightarrow> string \<Rightarrow> error + nat" where
  "get_run w rid =
     (case map_of (runs w) rid of
        None \<Rightarrow> Inl (KeyError (''Simulation run '' @ quoted rid @ '' not found.''))
      | Some a \<Rightarrow> Inr a)"

text \<open>
  \<open>stop_simulation\<close>; \<open>sig\<close> is the outcome of \<open>os.kill(run.pid, 15)\<close> should the call
  be made, \<open>now\<close> the clock.
\<close>

definition stop_simulation ::
  "world \<Rightarrow> string \<Rightarrow> signal_outcome \<Rightarrow> string \<Rightarrow> (error + nat) \<times> world" where
  "stop_simulation w rid sig now =
     (case get_run w rid of
        Inl e \<Rightarrow> (Inl e, w)
      | Inr a \<Rightarrow>
          let run = run_objects w ! a in
          if status run \<noteq> RUNNING then (Inr a, w)
          else
            (case pid run of
               Some p \<Rightarrow>
                 (case sig of
                    Delivered \<Rightarrow>
                      (Inr a, set_run w a (run\<lparr>status := STOPPED, end_time := Some now\<rparr>))
                  | NoSuchProcess \<Rightarrow>
                      (Inr a, set_run w a (run\<lparr>status := COMPLETED, end_time := Some now\<rparr>))
                  | SignalFailed msg \<Rightarrow> (Inl (OSError msg), w))
             | None \<Rightarrow>
                 (Inr a, set_run w a (run\<lparr>status := STOPPED, end_time := Some now\<rparr>))))"

text \<open>
  \<open>_refresh_status\<close> on a run object; \<open>probe\<close> is the outcome of \<open>os.kill(run.pid, 0)\<close>
  should the call be made.
\<close>

definition refresh_status :: "SimulationRun \<Rightarrow> signal_outcome \<Rightarrow> string \<Rightarrow> error + SimulationRun" where
  "refresh_status run probe now =
     (if status run \<noteq> RUNNING \<or> pid run = None then Inr run
      else
        (case probe of
           Delivered \<Rightarrow> Inr run
         | NoSuchProcess \<Rightarrow> Inr (run\<lparr>status := COMPLETED, end_time := Some now\<rparr>)
         | SignalFailed msg \<Rightarrow> Inl (OSError msg)))"

text \<open>\<open>get_run_status\<close>; the dict of \<open>_run_info\<close> has the fields of the run object.\<close>

definition get_run_status ::
  "world \<Rightarrow> string \<Rightarrow> signal_outcome \<Rightarrow> string \<Rightarrow> (error + SimulationRun) \<times> world" where
  "get_run_status w rid probe now =
     (case get_run w rid of
        Inl e \<Rightarrow> (Inl e, w)
      | Inr a \<Rightarrow>
          (case refresh_status (run_objects w ! a) probe now of
             Inl e \<Rightarrow> (Inl e, w)
           | Inr run' \<Rightarrow> (Inr run', set_run w a run')))"

text \<open>
  A caller's requests to the controller, each with the answers of the operating system
  it meets. A request that raises leaves the state as the exception found it, and the
  server goes on with the next request.
\<close>

datatype request =
    Run string "string list option" bool run_env
  | Stop string signal_outcome string
  | Status string signal_outcome string

fun serve :: "pylib \<Rightarrow> world \<Rightarrow> request \<Rightarrow> world" where
  "serve L w (Run sid extra_args dry_run env) = snd (run_simulation L w sid extra_args dry_run env)"
| "serve L w (Stop rid sig now) = snd (stop_simulation w rid sig now)"
| "serve L w (Status rid probe now) = snd (get_run_status w rid probe now)"

fun serve_all :: "pylib \<Rightarrow> world \<Rightarrow> request list \<Rightarrow> world" where
  "serve_all L w [] = w"
| "serve_all L w (r # rs) = serve_all L (serve L w r) rs"

text \<open>The terminal states of a run: the spec's COMPLETED, FAILED and STOPPED.\<close>

definition terminal :: "SimulationStatus \<Rightarrow> bool" where
  "terminal s = (s = COMPLETED \<or> s = FAILED \<or> s = STOPPED)"

section \<open>Concrete states\<close>

text \<open>
  States reached through the operations above, on which the theorems below are
  instantiated. \<open>ex_lib\<close> joins paths with a slash and renders every value as \<open>v\<close>.
\<close>

definition ex_lib :: pylib where
  "ex_lib = \<lparr>py_str = (\<lambda>_. ''v''), path_join = (\<lambda>d n. d @ ''/'' @ n)\<rparr>"

definition ex_scenario :: Scenario where
  "ex_scenario = \<lparr>Scenario.name = ''alpha'', scenario_id = ''s1'', description = [],
                   duration_s = PyInt 3600, time_step_s = PyFloat 1, platforms = [],
                   parameters = [], file_path = None\<rparr>"

definition ex_sensor :: Component where
  "ex_sensor = \<lparr>Component.name = ''p1_sensor'', component_type = ''wsf_radar_sensor'',
                 parameters = []\<rparr>"

definition ex_platform :: "Component list \<Rightarrow> Platform" where
  "ex_platform cs = \<lparr>Platform.name = ''p1'', platform_type = ''wsf_platform'',
                      position = \<lparr>latitude = PyFloat 35, longitude = PyFloat (- 80),
                                  altitude_m = PyInt 10000\<rparr>,
                      components = cs, parameters = []\<rparr>"

text \<open>A fresh server on an empty disk, with no binary configured, and one scenario.\<close>

definition ex_alpha :: world where
  "ex_alpha = snd (create_scenario (init_world ''scenarios'' [] ''simulation_output'' [])
                     ''s1'' ''alpha'' [] (PyInt 3600) (PyFloat 1))"

text \<open>Then a platform, and two sensors added under the default component name.\<close>

definition ex_p1 :: world where
  "ex_p1 = snd (create_platform ex_alpha ''s1'' ''p1'' ''wsf_platform''
                  (PyFloat 35) (PyFloat (- 80)) (PyInt 10000) None)"

definition ex_two_sensors :: world where
  "ex_two_sensors =
     snd (add_sensor (snd (add_sensor ex_p1 ''s1'' ''p1'' ''wsf_radar_sensor'' None None))
            ''s1'' ''p1'' ''wsf_radar_sensor'' None None)"

text \<open>
  Runs of the scenario: a dry run on the server without a binary, and a real run, whose
  child gets process id 4242, on a server with a binary configured. \<open>ex_run\<close> is the
  run object as \<open>run_simulation\<close> first builds it.
\<close>

definition ex_env :: run_env where
  "ex_env = \<lparr>save_mkdir = Succeeded, save_write = Written, new_uuid = ''r1'',
             out_mkdir = Succeeded, now1 = ''t1'', now2 = ''t2'', binary_exists = True,
             spawn = Started 4242\<rparr>"

definition ex_run :: SimulationRun where
  "ex_run = \<lparr>run_id = ''r1'', scenario_name = ''alpha'',
             scenario_file = ''scenarios/alpha.afsim'', status = IDLE, start_time = None,
             end_time = None, pid = None, output_dir = ''simulation_output/alpha'',
             log_file = [], error_message = [], result_files = []\<rparr>"

definition ex_configured :: world where
  "ex_configured = set_afsim_binary ex_alpha ''/opt/afsim/bin/mission''"

definition ex_done :: world where
  "ex_done = snd (run_simulation ex_lib ex_alpha ''s1'' None True ex_env)"

definition ex_running :: world where
  "ex_running = snd (run_simulation ex_lib ex_configured ''s1'' None False ex_env)"

text \<open>
  A scenario whose name has 300 characters, longer than a file name may be, on a server
  without a binary and on one with a binary configured; and the answers of a file system
  that refuses to write its file.
\<close>

definition ex_long :: world where
  "ex_long = snd (create_scenario (init_world ''scenarios'' [] ''simulation_output'' [])
                    ''s1'' (replicate 300 (CHR ''a'')) [] (PyInt 3600) (PyFloat 1))"


definition ex_name_too_long :: error where
  "ex_name_too_long =
     OSError (''[Errno 36] File name too long: ''
                @ quoted (''scenarios/'' @ replicate 300 (CHR ''a'') @ ''.afsim''))"

definition ex_env_refused :: run_env where
  "ex_env_refused =
     ex_env\<lparr>save_write := WriteRaised ex_name_too_long None, binary_exists := False\<rparr>"

text \<open>
  A scenario that breaks the rules of validation: a negative duration, a time step of
  zero, and, loaded from a structured file, two platforms of one name.
\<close>

definition ex_bad :: world where
  "ex_bad = snd (create_scenario (init_world ''scenarios'' [] ''simulation_output'' [])
                   ''s2'' ''bad'' [] (PyInt (- 1)) (PyFloat 0))"

definition ex_twins :: world where
  "ex_twins = snd (load_scenario_json
                     (init_world ''scenarios'' [] ''simulation_output''
                        [(''twins.json'',
                          Json (JObj [(''scenario_id'', JStr ''s3''), (''name'', JStr ''twins''),
                                      (''platforms'', JArr [JObj [(''name'', JStr ''p1'')],
                                                            JObj [(''name'', JStr ''p1'')]])]))])
                     ''twins.json'')"

text \<open>A fresh server on a disk with two structured files that carry no \<open>scenario_id\<close>.\<close>

definition ex_no_id :: world where
  "ex_no_id = init_world ''scenarios'' [] ''simulation_output''
     [(''a.json'', Json (JObj [(''name'', JStr ''first'')])),
      (''b.json'', Json (JObj [(''name'', JStr ''second''), (''duration_s'', JNum (PyInt 60))]))]"

section \<open>Rendering of a component block\<close>

lemma str_join_snoc:
  "xs \<noteq> [] \<Longrightarrow> str_join sep (xs @ [x]) = str_join sep xs @ sep @ x"
  by (induction sep xs rule: str_join.induct) auto

lemma last_split1_no_sep:
  "sep \<notin> set s \<Longrightarrow> last (str_split1 sep s) = s"
  by (simp add: str_split1_def)

lemma last_split1_first_sep:
  "sep \<notin> set pre \<Longrightarrow> last (str_split1 sep (pre @ sep # post)) = post"
  by (simp add: str_split1_def takeWhile_append dropWhile_append)

lemma Component_block_closing:
  "Component_to_afsim_block L c =
     str_join nl ([''  '' @ component_type c @ '' '' @ Component.name c]
                  @ map (\<lambda>(k, v). ''    '' @ k @ '' '' @ py_str L v) (Component.parameters c))
     @ nl @ ''  end_'' @ last (str_split1 (CHR ''_'') (component_type c))"
  unfolding Component_to_afsim_block_def Component_block_lines_def Let_def
  by (simp only: append_assoc [symmetric] str_join_snoc append_is_Nil_conv not_Cons_self2
        simp_thms)

text \<open>
  C9. The rendered block of a component is its opening line and its parameter lines,
  joined by newlines, then a newline and the closing line. When the kind has no
  underscore the closing line is \<open>"  end_"\<close> followed by the whole kind; when the kind is
  \<open>pre_post\<close> with no underscore in \<open>pre\<close> the closing line is \<open>"  end_"\<close> followed by
  \<open>post\<close>, that is the kind with everything up to and including the first underscore removed.
\<close>

theorem closing_token_from_kind:
  fixes L :: pylib and c :: Component
  defines "kind \<equiv> component_type c"
  defines "opening \<equiv> str_join nl ([''  '' @ kind @ '' '' @ Component.name c]
             @ map (\<lambda>(k, v). ''    '' @ k @ '' '' @ py_str L v) (Component.parameters c))"
  shows "(CHR ''_'' \<notin> set kind \<longrightarrow>
            last (Component_block_lines L c) = ''  end_'' @ kind
          \<and> Component_to_afsim_block L c = opening @ nl @ ''  end_'' @ kind)
       \<and> (\<forall>pre post. kind = pre @ ''_'' @ post \<and> CHR ''_'' \<notin> set pre \<longrightarrow>
            last (Component_block_lines L c) = ''  end_'' @ post
          \<and> Component_to_afsim_block L c = opening @ nl @ ''  end_'' @ post)"
proof (intro conjI impI allI)
  assume "CHR ''_'' \<notin> set kind"
  then have tok: "last (str_split1 (CHR ''_'') (component_type c)) = kind"
    unfolding kind_def by (rule last_split1_no_sep)
  show "last (Component_block_lines L c) = ''  end_'' @ kind"
    using tok by (simp add: Component_block_lines_def)
  show "Component_to_afsim_block L c = opening @ nl @ ''  end_'' @ kind"
    using tok unfolding opening_def kind_def by (simp only: Component_block_closing)
next
  fix pre post
  assume h: "kind = pre @ ''_'' @ post \<and> CHR ''_'' \<notin> set pre"
  then have "last (str_split1 (CHR ''_'') (pre @ CHR ''_'' # post)) = post"
    by (intro last_split1_first_sep) simp
  with h have tok: "last (str_split1 (CHR ''_'') (component_type c)) = post"
    unfolding kind_def by simp
  show "last (Component_block_lines L c) = ''  end_'' @ post"
    using tok by (simp add: Component_block_lines_def)
  show "Component_to_afsim_block L c = opening @ nl @ ''  end_'' @ post"
    using tok unfolding opening_def kind_def by (simp only: Component_block_closing)
qed

theorem closing_token_from_kind_witness:
  "Component_to_afsim_block \<lparr>py_str = (\<lambda>_. ''v''), path_join = (\<lambda>d n. d @ ''/'' @ n)\<rparr>
     \<lparr>Component.name = ''r1'', component_type = ''wsf_radar_sensor'', parameters = [(''range'', JNull)]\<rparr>
   = ''  wsf_radar_sensor r1'' @ nl @ ''    range v'' @ nl @ ''  end_radar_sensor''
   \<and> Component_to_afsim_block \<lparr>py_str = (\<lambda>_. ''v''), path_join = (\<lambda>d n. d @ ''/'' @ n)\<rparr>
     \<lparr>Component.name = ''m1'', component_type = ''mover'', parameters = []\<rparr>
   = ''  mover m1'' @ nl @ ''  end_mover''"
proof -
  let ?L = "\<lparr>py_str = (\<lambda>_. ''v''), path_join = (\<lambda>d n. d @ ''/'' @ n)\<rparr>"
  let ?c1 = "\<lparr>Component.name = ''r1'', component_type = ''wsf_radar_sensor'',
               parameters = [(''range'', JNull)]\<rparr>"
  let ?c2 = "\<lparr>Component.name = ''m1'', component_type = ''mover'', parameters = []\<rparr>"
  have h1: "component_type ?c1 = ''wsf'' @ ''_'' @ ''radar_sensor'' \<and> CHR ''_'' \<notin> set ''wsf''"
    by simp
  have h2: "CHR ''_'' \<notin> set (component_type ?c2)"
    by simp
  have "Component_to_afsim_block ?L ?c1
          = ''  wsf_radar_sensor r1'' @ nl @ ''    range v'' @ nl @ ''  end_radar_sensor''"
    using closing_token_from_kind [where c = ?c1 and L = ?L, THEN conjunct2, rule_format, OF h1]
    by simp
  moreover have "Component_to_afsim_block ?L ?c2 = ''  mover m1'' @ nl @ ''  end_mover''"
    using closing_token_from_kind [where c = ?c2 and L = ?L, THEN conjunct1, rule_format, OF h2]
    by simp
  ultimately show ?thesis by simp
qed

section \<open>The concrete states, computed\<close>

lemma ex_alpha_world:
  "ex_alpha = (init_world ''scenarios'' [] ''simulation_output'' [])
                \<lparr>active_scenarios := [(''s1'', ex_scenario)]\<rparr>"
  by (simp add: ex_alpha_def create_scenario_def init_world_def Let_def ex_scenario_def)

lemma ex_p1_world:
  "ex_p1 = ex_alpha\<lparr>active_scenarios := [(''s1'', ex_scenario\<lparr>platforms := [ex_platform []]\<rparr>)]\<rparr>"
  by (simp add: ex_p1_def create_platform_def get_scenario_def check_unique_platform_def
        ex_alpha_world init_world_def ex_scenario_def ex_platform_def or_empty_def Let_def)

lemma ex_two_sensors_world:
  "ex_two_sensors =
     ex_alpha\<lparr>active_scenarios :=
       [(''s1'', ex_scenario\<lparr>platforms := [ex_platform [ex_sensor, ex_sensor]]\<rparr>)]\<rparr>"
  by (simp add: ex_two_sensors_def add_sensor_def get_platform_def get_scenario_def
        put_platform_def ex_p1_world ex_alpha_world init_world_def ex_scenario_def
        ex_platform_def ex_sensor_def or_empty_def or_default_def Let_def)

section \<open>Validation\<close>

lemma dup_names_iff: "length xs \<noteq> card (set xs) \<longleftrightarrow> \<not> distinct xs"
  using card_distinct distinct_card by metis

text \<open>
  C1. For a scenario in the registry, \<open>validate_scenario\<close> returns a report whose
  \<open>valid\<close> flag is true exactly when its list of errors is empty, whatever the warnings.
  The errors are, in this order and nothing else: the empty-name message when the name is
  empty, the duration message when the duration is at most 0, the time-step message when
  the time step is at most 0, and the duplicate message when two platforms share a name.
  So the report is valid exactly when the name is not empty, duration and time step are
  positive and the platform names are pairwise distinct. The warnings are, and nothing
  else: one message when the time step is above the duration and one when there is no
  platform; neither condition adds anything to the errors.
\<close>

theorem validate_report:
  assumes reg: "map_of (active_scenarios w) sid = Some s"
  shows "\<exists>r. validate_scenario L w sid = Inr r
     \<and> (valid r \<longleftrightarrow> errors r = [])
     \<and> (''Scenario name is empty.'' \<in> set (errors r) \<longleftrightarrow> Scenario.name s = [])
     \<and> (''Simulation duration must be positive (got '' @ py_str L (JNum (duration_s s)) @ '').''
           \<in> set (errors r) \<longleftrightarrow> num_val (duration_s s) \<le> 0)
     \<and> (''Time step must be positive (got '' @ py_str L (JNum (time_step_s s)) @ '').''
           \<in> set (errors r) \<longleftrightarrow> num_val (time_step_s s) \<le> 0)
     \<and> (''Duplicate platform names found.'' \<in> set (errors r)
           \<longleftrightarrow> \<not> distinct (map Platform.name (platforms s)))
     \<and> (''Time step is larger than duration.'' \<in> set (warnings r)
           \<longleftrightarrow> num_val (time_step_s s) > num_val (duration_s s))
     \<and> (''Scenario has no platforms.'' \<in> set (warnings r) \<longleftrightarrow> platforms s = [])
     \<and> ''Time step is larger than duration.'' \<notin> set (errors r)
     \<and> ''Scenario has no platforms.'' \<notin> set (errors r)
     \<and> errors r =
           (if Scenario.name s = [] then [''Scenario name is empty.''] else [])
         @ (if num_val (duration_s s) \<le> 0
            then [''Simulation duration must be positive (got ''
                    @ py_str L (JNum (duration_s s)) @ '').'']
            else [])
         @ (if num_val (time_step_s s) \<le> 0
            then [''Time step must be positive (got ''
                    @ py_str L (JNum (time_step_s s)) @ '').'']
            else [])
         @ (if \<not> distinct (map Platform.name (platforms s))
            then [''Duplicate platform names found.''] else [])
     \<and> warnings r =
           (if num_val (time_step_s s) > num_val (duration_s s)
            then [''Time step is larger than duration.''] else [])
         @ (if platforms s = [] then [''Scenario has no platforms.''] else [])
     \<and> (errors r = [] \<longleftrightarrow>
            Scenario.name s \<noteq> [] \<and> 0 < num_val (duration_s s) \<and> 0 < num_val (time_step_s s)
          \<and> distinct (map Platform.name (platforms s)))
     \<and> (valid r \<longleftrightarrow>
            Scenario.name s \<noteq> [] \<and> 0 < num_val (duration_s s) \<and> 0 < num_val (time_step_s s)
          \<and> distinct (map Platform.name (platforms s)))"
  using reg
  by (auto simp add: validate_scenario_def get_scenario_def Let_def dup_names_iff)

theorem validate_report_witness:
  "map_of (active_scenarios ex_alpha) ''s1'' = Some ex_scenario
   \<and> validate_scenario ex_lib ex_alpha ''s1''
       = Inr \<lparr>valid = True, errors = [], warnings = [''Scenario has no platforms.'']\<rparr>
   \<and> map_of (active_scenarios ex_bad) ''s2''
       = Some (ex_scenario\<lparr>Scenario.name := ''bad'', scenario_id := ''s2'',
                 duration_s := PyInt (- 1), time_step_s := PyFloat 0\<rparr>)
   \<and> validate_scenario ex_lib ex_bad ''s2''
       = Inr \<lparr>valid = False,
               errors = [''Simulation duration must be positive (got v).'',
                         ''Time step must be positive (got v).''],
               warnings = [''Time step is larger than duration.'',
                           ''Scenario has no platforms.'']\<rparr>
   \<and> map (\<lambda>(k, s). (k, map Platform.name (platforms s))) (active_scenarios ex_twins)
       = [(''s3'', [''p1'', ''p1''])]
   \<and> validate_scenario ex_lib ex_twins ''s3''
       = Inr \<lparr>valid = False, errors = [''Duplicate platform names found.''], warnings = []\<rparr>"
proof -
  let ?bad = "ex_scenario\<lparr>Scenario.name := ''bad'', scenario_id := ''s2'',
                 duration_s := PyInt (- 1), time_step_s := PyFloat 0\<rparr>"
  let ?twin = "\<lparr>Platform.name = ''p1'', platform_type = ''wsf_platform'',
                position = \<lparr>latitude = PyFloat 0, longitude = PyFloat 0, altitude_m = PyFloat 0\<rparr>,
                components = [], parameters = []\<rparr>"
  let ?twins = "\<lparr>Scenario.name = ''twins'', scenario_id = ''s3'', description = [],
                 duration_s = PyFloat 3600, time_step_s = PyFloat 1,
                 platforms = [?twin, ?twin], parameters = [],
                 file_path = Some ''twins.json''\<rparr>"
  have h1: "map_of (active_scenarios ex_alpha) ''s1'' = Some ex_scenario"
    by (simp add: ex_alpha_world)
  have h2: "map_of (active_scenarios ex_bad) ''s2'' = Some ?bad"
    by (simp add: ex_bad_def create_scenario_def init_world_def Let_def ex_scenario_def)
  have a3: "active_scenarios ex_twins = [(''s3'', ?twins)]"
    by (simp add: ex_twins_def load_scenario_json_def scenario_from_dict_def
          platform_from_dict_def bind_err_def dict_get_def dict_item_def iter_json_def
          as_str_def as_num_def as_params_def init_world_def Let_def)
  then have h3: "map_of (active_scenarios ex_twins) ''s3'' = Some ?twins" by simp
  from validate_report [OF h1, of ex_lib]
  obtain r1 where r1: "validate_scenario ex_lib ex_alpha ''s1'' = Inr r1"
    and "valid r1 \<longleftrightarrow> errors r1 = []"
    and "errors r1 = [] \<longleftrightarrow>
            Scenario.name ex_scenario \<noteq> [] \<and> 0 < num_val (duration_s ex_scenario)
          \<and> 0 < num_val (time_step_s ex_scenario)
          \<and> distinct (map Platform.name (platforms ex_scenario))"
    and "warnings r1 =
           (if num_val (time_step_s ex_scenario) > num_val (duration_s ex_scenario)
            then [''Time step is larger than duration.''] else [])
         @ (if platforms ex_scenario = [] then [''Scenario has no platforms.''] else [])"
    by blast
  then have v1: "valid r1" "errors r1 = []" "warnings r1 = [''Scenario has no platforms.'']"
    by (simp_all add: ex_scenario_def)
  from validate_report [OF h2, of ex_lib]
  obtain r2 where r2: "validate_scenario ex_lib ex_bad ''s2'' = Inr r2"
    and "valid r2 \<longleftrightarrow> errors r2 = []"
    and "errors r2 =
           (if Scenario.name ?bad = [] then [''Scenario name is empty.''] else [])
         @ (if num_val (duration_s ?bad) \<le> 0
            then [''Simulation duration must be positive (got ''
                    @ py_str ex_lib (JNum (duration_s ?bad)) @ '').'']
            else [])
         @ (if num_val (time_step_s ?bad) \<le> 0
            then [''Time step must be positive (got ''
                    @ py_str ex_lib (JNum (time_step_s ?bad)) @ '').'']
            else [])
         @ (if \<not> distinct (map Platform.name (platforms ?bad))
            then [''Duplicate platform names found.''] else [])"
    and "warnings r2 =
           (if num_val (time_step_s ?bad) > num_val (duration_s ?bad)
            then [''Time step is larger than duration.''] else [])
         @ (if platforms ?bad = [] then [''Scenario has no platforms.''] else [])"
    by blast
  then have v2: "\<not> valid r2"
    "errors r2 = [''Simulation duration must be positive (got v).'',
                  ''Time step must be positive (got v).'']"
    "warnings r2 = [''Time step is larger than duration.'', ''Scenario has no platforms.'']"
    by (simp_all add: ex_scenario_def ex_lib_def)
  from validate_report [OF h3, of ex_lib]
  obtain r3 where r3: "validate_scenario ex_lib ex_twins ''s3'' = Inr r3"
    and "valid r3 \<longleftrightarrow> errors r3 = []"
    and "errors r3 =
           (if Scenario.name ?twins = [] then [''Scenario name is empty.''] else [])
         @ (if num_val (duration_s ?twins) \<le> 0
            then [''Simulation duration must be positive (got ''
                    @ py_str ex_lib (JNum (duration_s ?twins)) @ '').'']
            else [])
         @ (if num_val (time_step_s ?twins) \<le> 0
            then [''Time step must be positive (got ''
                    @ py_str ex_lib (JNum (time_step_s ?twins)) @ '').'']
            else [])
         @ (if \<not> distinct (map Platform.name (platforms ?twins))
            then [''Duplicate platform names found.''] else [])"
    and "warnings r3 =
           (if num_val (time_step_s ?twins) > num_val (duration_s ?twins)
            then [''Time step is larger than duration.''] else [])
         @ (if platforms ?twins = [] then [''Scenario has no platforms.''] else [])"
    by blast
  then have v3: "\<not> valid r3" "errors r3 = [''Duplicate platform names found.'']"
    "warnings r3 = []"
    by simp_all
  have e1: "r1 = \<lparr>valid = True, errors = [], warnings = [''Scenario has no platforms.'']\<rparr>"
    using v1 by (cases r1) simp
  have e2: "r2 = \<lparr>valid = False,
               errors = [''Simulation duration must be positive (got v).'',
                         ''Time step must be positive (got v).''],
               warnings = [''Time step is larger than duration.'',
                           ''Scenario has no platforms.'']\<rparr>"
    using v2 by (cases r2) simp
  have e3: "r3 = \<lparr>valid = False, errors = [''Duplicate platform names found.''],
                  warnings = []\<rparr>"
    using v3 by (cases r3) simp
  show ?thesis using h1 h2 a3 r1 r2 r3 e1 e2 e3 by simp
qed

section \<open>The structured form and back\<close>

lemma component_round_trip: "component_from_dict (component_to_dict c) = Inr c"
  by (simp add: component_from_dict_def component_to_dict_def bind_err_def dict_item_def
        dict_get_def as_str_def as_params_def)

lemma map_err_round_trip:
  "(\<And>x. x \<in> set xs \<Longrightarrow> f (g x) = Inr x) \<Longrightarrow> map_err f (map g xs) = Inr xs"
  by (induction xs) simp_all

lemma platform_round_trip: "platform_from_dict (platform_to_dict p) = Inr p"
  by (simp add: platform_from_dict_def platform_to_dict_def bind_err_def dict_item_def
        dict_get_def as_str_def as_params_def as_num_def iter_json_def
        map_err_round_trip component_round_trip)

lemma scenario_round_trip:
  "scenario_from_dict (scenario_to_dict s) = Inr (s\<lparr>file_path := None\<rparr>)"
  by (simp add: scenario_from_dict_def scenario_to_dict_def bind_err_def dict_item_def
        dict_get_def as_str_def as_params_def as_num_def iter_json_def
        map_err_round_trip platform_round_trip)

text \<open>
  C2. Saving a registered scenario in the structured form, to the default path or a given
  one, and loading the file just written gives a scenario that differs from the saved one
  in its \<open>file_path\<close> only: name, duration, time step, parameters and the whole list
  of platforms (each with its name, type, position, parameters and components in order)
  are equal. This holds when the directory is made and the file written, and those are
  the only answers of the file system under which the save returns a path at all.
\<close>

theorem structured_round_trip:
  assumes reg: "map_of (active_scenarios w) sid = Some s"
  shows "(\<exists>path w1 s' w2.
           save_scenario_json L w sid fp Succeeded Written = (Inr path, w1)
         \<and> load_scenario_json w1 path = (Inr s', w2)
         \<and> s' = s\<lparr>file_path := Some path\<rparr>
         \<and> Scenario.name s' = Scenario.name s
         \<and> duration_s s' = duration_s s
         \<and> time_step_s s' = time_step_s s
         \<and> Scenario.parameters s' = Scenario.parameters s
         \<and> platforms s' = platforms s)
       \<and> (\<forall>mk wr path w1.
            save_scenario_json L w sid fp mk wr = (Inr path, w1) \<longrightarrow>
              mk = Succeeded \<and> wr = Written
            \<and> (\<exists>s' w2. load_scenario_json w1 path = (Inr s', w2)
                  \<and> s' = s\<lparr>file_path := Some path\<rparr>
                  \<and> Scenario.name s' = Scenario.name s
                  \<and> duration_s s' = duration_s s
                  \<and> time_step_s s' = time_step_s s
                  \<and> Scenario.parameters s' = Scenario.parameters s
                  \<and> platforms s' = platforms s))"
proof (intro conjI allI impI)
  show "\<exists>path w1 s' w2.
           save_scenario_json L w sid fp Succeeded Written = (Inr path, w1)
         \<and> load_scenario_json w1 path = (Inr s', w2)
         \<and> s' = s\<lparr>file_path := Some path\<rparr>
         \<and> Scenario.name s' = Scenario.name s
         \<and> duration_s s' = duration_s s
         \<and> time_step_s s' = time_step_s s
         \<and> Scenario.parameters s' = Scenario.parameters s
         \<and> platforms s' = platforms s"
    using reg
    by (simp add: save_scenario_json_def load_scenario_json_def get_scenario_def Let_def
          update_conv' scenario_round_trip)
next
  fix mk wr path w1
  assume sv: "save_scenario_json L w sid fp mk wr = (Inr path, w1)"
  from sv reg show "mk = Succeeded"
    by (cases mk) (simp_all add: save_scenario_json_def get_scenario_def Let_def)
  from sv reg show "wr = Written"
    by (cases mk; cases wr) (simp_all add: save_scenario_json_def get_scenario_def Let_def)
  from sv reg show "\<exists>s' w2. load_scenario_json w1 path = (Inr s', w2)
                  \<and> s' = s\<lparr>file_path := Some path\<rparr>
                  \<and> Scenario.name s' = Scenario.name s
                  \<and> duration_s s' = duration_s s
                  \<and> time_step_s s' = time_step_s s
                  \<and> Scenario.parameters s' = Scenario.parameters s
                  \<and> platforms s' = platforms s"
    by (cases mk; cases wr)
      (auto simp add: save_scenario_json_def load_scenario_json_def get_scenario_def Let_def
         update_conv' scenario_round_trip)
qed

theorem structured_round_trip_witness:
  "map_of (active_scenarios ex_two_sensors) ''s1''
     = Some (ex_scenario\<lparr>platforms := [ex_platform [ex_sensor, ex_sensor]]\<rparr>)
   \<and> fst (save_scenario_json ex_lib ex_two_sensors ''s1'' None Succeeded Written)
       = Inr ''scenarios/alpha.json''
   \<and> fst (load_scenario_json
            (snd (save_scenario_json ex_lib ex_two_sensors ''s1'' None Succeeded Written))
            ''scenarios/alpha.json'')
       = Inr (ex_scenario\<lparr>platforms := [ex_platform [ex_sensor, ex_sensor]],
                           file_path := Some ''scenarios/alpha.json''\<rparr>)"
proof -
  let ?s = "ex_scenario\<lparr>platforms := [ex_platform [ex_sensor, ex_sensor]]\<rparr>"
  have h: "map_of (active_scenarios ex_two_sensors) ''s1'' = Some ?s"
    by (simp add: ex_two_sensors_world)
  have p: "fst (save_scenario_json ex_lib ex_two_sensors ''s1'' None Succeeded Written)
             = Inr ''scenarios/alpha.json''"
    using h
    by (simp add: save_scenario_json_def get_scenario_def Let_def ex_lib_def
          ex_two_sensors_world ex_alpha_world init_world_def ex_scenario_def)
  from structured_round_trip [OF h, of ex_lib None, THEN conjunct1]
  obtain path w1 s' w2 where
    "save_scenario_json ex_lib ex_two_sensors ''s1'' None Succeeded Written = (Inr path, w1)"
    "load_scenario_json w1 path = (Inr s', w2)"
    "s' = ?s\<lparr>file_path := Some path\<rparr>"
    by blast
  with p h show ?thesis by simp
qed

section \<open>Creating platforms\<close>

text \<open>
  C4. In a registered scenario, \<open>create_platform\<close> with the name of an existing
  platform fails with the \<open>ValueError\<close> of \<open>_check_unique_platform\<close> (the spec's
  AlreadyExists) and leaves the whole state as it was; with a name no platform has, it
  succeeds, the scenario afterwards is the old one with the new platform appended, and its
  number of platforms has grown by exactly one.
\<close>

theorem create_platform_unique:
  assumes reg: "map_of (active_scenarios w) sid = Some s"
  shows "(nm \<in> set (map Platform.name (platforms s)) \<longrightarrow>
            create_platform w sid nm ptype lat lon alt ps
              = (Inl (ValueError (''Platform '' @ quoted nm @ '' already exists in scenario ''
                                   @ quoted (Scenario.name s) @ ''.'')), w))
       \<and> (nm \<notin> set (map Platform.name (platforms s)) \<longrightarrow>
            (\<exists>info w' s' p.
               create_platform w sid nm ptype lat lon alt ps = (Inr info, w')
             \<and> map_of (active_scenarios w') sid = Some s'
             \<and> p = \<lparr>Platform.name = nm, platform_type = ptype,
                     position = \<lparr>latitude = lat, longitude = lon, altitude_m = alt\<rparr>,
                     components = [], parameters = or_empty ps\<rparr>
             \<and> info = platform_info p
             \<and> Platform.name p = nm
             \<and> platforms s' = platforms s @ [p]
             \<and> s' = s\<lparr>platforms := platforms s @ [p]\<rparr>
             \<and> length (platforms s') = length (platforms s) + 1))"
  using reg
  by (simp add: create_platform_def get_scenario_def check_unique_platform_def Let_def
        update_conv')

theorem create_platform_unique_witness:
  "map_of (active_scenarios ex_p1) ''s1'' = Some (ex_scenario\<lparr>platforms := [ex_platform []]\<rparr>)
   \<and> create_platform ex_p1 ''s1'' ''p1'' ''wsf_platform'' (PyFloat 0) (PyFloat 0) (PyFloat 0) None
       = (Inl (ValueError (''Platform '' @ quoted ''p1'' @ '' already exists in scenario ''
                            @ quoted ''alpha'' @ ''.'')), ex_p1)
   \<and> map (\<lambda>(k, s). (k, map Platform.name (platforms s)))
        (active_scenarios (snd (create_platform ex_p1 ''s1'' ''p2'' ''wsf_platform''
                                  (PyFloat 0) (PyFloat 0) (PyFloat 0) None)))
       = [(''s1'', [''p1'', ''p2''])]"
proof -
  let ?s = "ex_scenario\<lparr>platforms := [ex_platform []]\<rparr>"
  have h: "map_of (active_scenarios ex_p1) ''s1'' = Some ?s"
    by (simp add: ex_p1_world)
  have n1: "''p1'' \<in> set (map Platform.name (platforms ?s))"
    by (simp add: ex_platform_def)
  have n2: "''p2'' \<notin> set (map Platform.name (platforms ?s))"
    by (simp add: ex_platform_def)
  note thm1 = create_platform_unique [OF h, of "''p1''" "''wsf_platform''" "PyFloat 0" "PyFloat 0"
      "PyFloat 0" None, THEN conjunct1, rule_format, OF n1]
  note thm2 = create_platform_unique [OF h, of "''p2''" "''wsf_platform''" "PyFloat 0" "PyFloat 0"
      "PyFloat 0" None, THEN conjunct2, rule_format, OF n2]
  from thm2 obtain info w' s' p where
    c: "create_platform ex_p1 ''s1'' ''p2'' ''wsf_platform'' (PyFloat 0) (PyFloat 0) (PyFloat 0) None
          = (Inr info, w')"
    and "map_of (active_scenarios w') ''s1'' = Some s'"
    and "Platform.name p = ''p2''"
    and "platforms s' = platforms ?s @ [p]"
    by blast
  have "map (\<lambda>(k, s). (k, map Platform.name (platforms s)))
        (active_scenarios (snd (create_platform ex_p1 ''s1'' ''p2'' ''wsf_platform''
                                  (PyFloat 0) (PyFloat 0) (PyFloat 0) None)))
       = [(''s1'', [''p1'', ''p2''])]"
    by (simp add: create_platform_def get_scenario_def check_unique_platform_def Let_def
          ex_p1_world ex_platform_def)
  with h thm1 show ?thesis by (simp add: ex_scenario_def)
qed

section \<open>Removing platforms and components\<close>

lemma replace_first_same:
  "find P xs = Some x \<Longrightarrow> replace_first P x xs = xs"
  by (induction xs) (auto split: if_splits)

lemma length_replace_first [simp]: "length (replace_first P y xs) = length xs"
  by (induction xs) auto

lemma find_replace_first:
  "find P xs = Some x \<Longrightarrow> P y \<Longrightarrow> find P (replace_first P y xs) = Some y"
  by (induction xs) (auto split: if_splits)

lemma find_Some_holds: "find P xs = Some x \<Longrightarrow> P x"
  by (induction xs) (auto split: if_splits)

lemma length_filter_neq:
  "length (filter (\<lambda>x. f x \<noteq> n) xs) + length (filter (\<lambda>x. f x = n) xs) = length xs"
  by (induction xs) auto

lemma filter_neq_id: "n \<notin> f ` set xs \<Longrightarrow> filter (\<lambda>x. f x \<noteq> n) xs = xs"
  by (induction xs) auto

lemma filter_eq_distinct:
  "distinct (map f xs) \<Longrightarrow> n \<in> f ` set xs \<Longrightarrow> length (filter (\<lambda>x. f x = n) xs) = 1"
  by (induction xs) (auto simp: filter_empty_conv image_iff)

lemma filter_neq_shorter:
  "length (filter (\<lambda>x. f x \<noteq> n) xs) < length xs \<longleftrightarrow> n \<in> f ` set xs"
proof (induction xs)
  case Nil
  then show ?case by simp
next
  case (Cons x xs)
  have "length (filter (\<lambda>x. f x \<noteq> n) xs) \<le> length xs" by simp
  with Cons show ?case by (auto simp: less_Suc_eq_le)
qed

lemma delete_platform_result:
  assumes reg: "map_of (active_scenarios w) sid = Some s"
  shows "delete_platform w sid nm =
           (Inr (nm \<in> Platform.name ` set (platforms s)),
            w\<lparr>active_scenarios :=
                AList.update sid (s\<lparr>platforms := filter (\<lambda>p. Platform.name p \<noteq> nm) (platforms s)\<rparr>)
                  (active_scenarios w)\<rparr>)"
  using reg
  by (simp add: delete_platform_def get_scenario_def Let_def filter_neq_shorter)

lemma remove_component_result:
  assumes reg: "map_of (active_scenarios w) sid = Some s"
    and plat: "find (\<lambda>p. Platform.name p = pn) (platforms s) = Some p"
  shows "remove_component w sid pn cn =
           (Inr (cn \<in> Component.name ` set (components p)),
            w\<lparr>active_scenarios :=
                AList.update sid
                  (s\<lparr>platforms := replace_first (\<lambda>p. Platform.name p = pn)
                       (p\<lparr>components := filter (\<lambda>c. Component.name c \<noteq> cn) (components p)\<rparr>)
                       (platforms s)\<rparr>)
                  (active_scenarios w)\<rparr>)"
  using reg plat
  by (simp add: remove_component_def get_platform_def get_scenario_def put_platform_def Let_def
        filter_neq_shorter)

text \<open>
  C5, as the code has it. In a registered scenario, \<open>delete_platform\<close> with a name no
  platform has returns \<open>False\<close>, raises nothing and leaves the state unchanged; with a
  name some platform has it returns \<open>True\<close> and removes every platform of that name: the
  list shrinks by the number of platforms so named, which is at least one, and exactly one
  when the platform names are pairwise distinct. \<open>remove_component\<close> does the same to
  the components of the platform it finds.
\<close>

theorem removal_by_name:
  assumes reg: "map_of (active_scenarios w) sid = Some s"
  shows "(nm \<notin> Platform.name ` set (platforms s) \<longrightarrow> delete_platform w sid nm = (Inr False, w))
     \<and> (nm \<in> Platform.name ` set (platforms s) \<longrightarrow>
          (\<exists>w' s'. delete_platform w sid nm = (Inr True, w')
             \<and> map_of (active_scenarios w') sid = Some s'
             \<and> platforms s' = filter (\<lambda>q. Platform.name q \<noteq> nm) (platforms s)
             \<and> length (platforms s') + length (filter (\<lambda>q. Platform.name q = nm) (platforms s))
                 = length (platforms s)
             \<and> length (platforms s') < length (platforms s)
             \<and> (distinct (map Platform.name (platforms s)) \<longrightarrow>
                  length (platforms s') + 1 = length (platforms s))))
     \<and> (\<forall>p. find (\<lambda>q. Platform.name q = pn) (platforms s) = Some p \<longrightarrow>
          (cn \<notin> Component.name ` set (components p) \<longrightarrow>
             remove_component w sid pn cn = (Inr False, w))
        \<and> (cn \<in> Component.name ` set (components p) \<longrightarrow>
             (\<exists>w' p'. remove_component w sid pn cn = (Inr True, w')
                \<and> get_platform w' sid pn = Inr p'
                \<and> components p' = filter (\<lambda>c. Component.name c \<noteq> cn) (components p)
                \<and> length (components p') + length (filter (\<lambda>c. Component.name c = cn) (components p))
                    = length (components p)
                \<and> length (components p') < length (components p)
                \<and> (distinct (map Component.name (components p)) \<longrightarrow>
                     length (components p') + 1 = length (components p)))))"
proof (intro conjI impI allI)
  assume "nm \<notin> Platform.name ` set (platforms s)"
  then show "delete_platform w sid nm = (Inr False, w)"
    using reg by (simp add: delete_platform_result filter_neq_id update_triv)
next
  assume a: "nm \<in> Platform.name ` set (platforms s)"
  let ?s' = "s\<lparr>platforms := filter (\<lambda>q. Platform.name q \<noteq> nm) (platforms s)\<rparr>"
  let ?w' = "w\<lparr>active_scenarios := AList.update sid ?s' (active_scenarios w)\<rparr>"
  have 1: "delete_platform w sid nm = (Inr True, ?w')"
    using reg a by (simp add: delete_platform_result)
  have 2: "map_of (active_scenarios ?w') sid = Some ?s'"
    by (simp add: update_conv')
  have 3: "length (platforms ?s') + length (filter (\<lambda>q. Platform.name q = nm) (platforms s))
             = length (platforms s)"
    using length_filter_neq [of Platform.name nm "platforms s"] by simp
  have 4: "length (platforms ?s') < length (platforms s)"
    using a by (simp add: filter_neq_shorter)
  have 5: "distinct (map Platform.name (platforms s)) \<longrightarrow>
             length (platforms ?s') + 1 = length (platforms s)"
    using 3 a filter_eq_distinct [of Platform.name "platforms s" nm] by auto
  show "\<exists>w' s'. delete_platform w sid nm = (Inr True, w')
             \<and> map_of (active_scenarios w') sid = Some s'
             \<and> platforms s' = filter (\<lambda>q. Platform.name q \<noteq> nm) (platforms s)
             \<and> length (platforms s') + length (filter (\<lambda>q. Platform.name q = nm) (platforms s))
                 = length (platforms s)
             \<and> length (platforms s') < length (platforms s)
             \<and> (distinct (map Platform.name (platforms s)) \<longrightarrow>
                  length (platforms s') + 1 = length (platforms s))"
    using 1 2 3 4 5 by (intro exI [of _ ?w'] exI [of _ ?s']) simp
next
  fix p
  assume plat: "find (\<lambda>q. Platform.name q = pn) (platforms s) = Some p"
    and "cn \<notin> Component.name ` set (components p)"
  then show "remove_component w sid pn cn = (Inr False, w)"
    using reg
    by (simp add: remove_component_result filter_neq_id replace_first_same update_triv)
next
  fix p
  assume plat: "find (\<lambda>q. Platform.name q = pn) (platforms s) = Some p"
    and a: "cn \<in> Component.name ` set (components p)"
  let ?p' = "p\<lparr>components := filter (\<lambda>c. Component.name c \<noteq> cn) (components p)\<rparr>"
  let ?s' = "s\<lparr>platforms := replace_first (\<lambda>q. Platform.name q = pn) ?p' (platforms s)\<rparr>"
  let ?w' = "w\<lparr>active_scenarios := AList.update sid ?s' (active_scenarios w)\<rparr>"
  have pn: "Platform.name p = pn"
    using find_Some_holds [OF plat] .
  have 1: "remove_component w sid pn cn = (Inr True, ?w')"
    using reg plat a by (simp add: remove_component_result)
  have 2: "get_platform ?w' sid pn = Inr ?p'"
    using find_replace_first [OF plat, of ?p'] pn
    by (simp add: get_platform_def get_scenario_def update_conv')
  have 3: "length (components ?p') + length (filter (\<lambda>c. Component.name c = cn) (components p))
             = length (components p)"
    using length_filter_neq [of Component.name cn "components p"] by simp
  have 4: "length (components ?p') < length (components p)"
    using a by (simp add: filter_neq_shorter)
  have 5: "distinct (map Component.name (components p)) \<longrightarrow>
             length (components ?p') + 1 = length (components p)"
    using 3 a filter_eq_distinct [of Component.name "components p" cn] by auto
  show "\<exists>w' p'. remove_component w sid pn cn = (Inr True, w')
                \<and> get_platform w' sid pn = Inr p'
                \<and> components p' = filter (\<lambda>c. Component.name c \<noteq> cn) (components p)
                \<and> length (components p') + length (filter (\<lambda>c. Component.name c = cn) (components p))
                    = length (components p)
                \<and> length (components p') < length (components p)
                \<and> (distinct (map Component.name (components p)) \<longrightarrow>
                     length (components p') + 1 = length (components p))"
    using 1 2 3 4 5 by (intro exI [of _ ?w'] exI [of _ ?p']) simp
qed

theorem removal_by_name_witness:
  "map_of (active_scenarios ex_two_sensors) ''s1''
     = Some (ex_scenario\<lparr>platforms := [ex_platform [ex_sensor, ex_sensor]]\<rparr>)
   \<and> delete_platform ex_two_sensors ''s1'' ''ghost'' = (Inr False, ex_two_sensors)
   \<and> fst (delete_platform ex_two_sensors ''s1'' ''p1'') = Inr True
   \<and> remove_component ex_two_sensors ''s1'' ''p1'' ''ghost'' = (Inr False, ex_two_sensors)
   \<and> fst (remove_component ex_two_sensors ''s1'' ''p1'' ''p1_sensor'') = Inr True"
proof -
  let ?s = "ex_scenario\<lparr>platforms := [ex_platform [ex_sensor, ex_sensor]]\<rparr>"
  let ?p = "ex_platform [ex_sensor, ex_sensor]"
  have h: "map_of (active_scenarios ex_two_sensors) ''s1'' = Some ?s"
    by (simp add: ex_two_sensors_world)
  have f: "find (\<lambda>q. Platform.name q = ''p1'') (platforms ?s) = Some ?p"
    by (simp add: ex_platform_def)
  have g1: "''ghost'' \<notin> Platform.name ` set (platforms ?s)"
    by (simp add: ex_platform_def)
  have g2: "''ghost'' \<notin> Component.name ` set (components ?p)"
    by (simp add: ex_platform_def ex_sensor_def)
  have p1: "''p1'' \<in> Platform.name ` set (platforms ?s)"
    by (simp add: ex_platform_def)
  have c1: "''p1_sensor'' \<in> Component.name ` set (components ?p)"
    by (simp add: ex_platform_def ex_sensor_def)
  note absent = removal_by_name [OF h, where nm = "''ghost''" and pn = "''p1''" and cn = "''ghost''"]
  note present = removal_by_name [OF h, where nm = "''p1''" and pn = "''p1''" and cn = "''p1_sensor''"]
  have "delete_platform ex_two_sensors ''s1'' ''ghost'' = (Inr False, ex_two_sensors)"
    using absent g1 by blast
  moreover have "remove_component ex_two_sensors ''s1'' ''p1'' ''ghost'' = (Inr False, ex_two_sensors)"
    using absent f g2 by blast
  moreover have "fst (delete_platform ex_two_sensors ''s1'' ''p1'') = Inr True"
    using present p1 by fastforce
  moreover have "fst (remove_component ex_two_sensors ''s1'' ''p1'' ''p1_sensor'') = Inr True"
    using present f c1 by fastforce
  ultimately show ?thesis using h by simp
qed

text \<open>
  C5 as stated fails where names repeat. Two sensors added under the default name are both
  called \<open>p1_sensor\<close>; removing that name returns \<open>True\<close> and takes the list of
  components from two elements to none, not to one.
\<close>

theorem remove_component_duplicates_counterexample:
  "get_platform ex_two_sensors ''s1'' ''p1'' = Inr (ex_platform [ex_sensor, ex_sensor])
   \<and> Component.name ex_sensor = ''p1_sensor''
   \<and> fst (remove_component ex_two_sensors ''s1'' ''p1'' ''p1_sensor'') = Inr True
   \<and> get_platform (snd (remove_component ex_two_sensors ''s1'' ''p1'' ''p1_sensor'')) ''s1'' ''p1''
       = Inr (ex_platform [])
   \<and> length (components (ex_platform []))
       \<noteq> length (components (ex_platform [ex_sensor, ex_sensor])) - 1"
  by (simp add: ex_two_sensors_world remove_component_def get_platform_def get_scenario_def
        put_platform_def Let_def ex_platform_def ex_sensor_def)

section \<open>Starting a run\<close>

lemma save_scenario_registered:
  assumes reg: "map_of (active_scenarios w) sid = Some s"
  shows "save_scenario L w sid None Succeeded Written =
           (Inr (path_join L (scenarios_dir w) (Scenario.name s @ ''.afsim'')),
            w\<lparr>disk := AList.update (path_join L (scenarios_dir w) (Scenario.name s @ ''.afsim''))
                        (Text (Scenario_to_afsim L s)) (disk w),
              active_scenarios :=
                AList.update sid
                  (s\<lparr>file_path := Some (path_join L (scenarios_dir w) (Scenario.name s @ ''.afsim''))\<rparr>)
                  (active_scenarios w)\<rparr>)"
  using reg by (simp add: save_scenario_def get_scenario_def Let_def)

lemma ex_done_runs:
  "run_objects ex_done = [ex_run\<lparr>status := COMPLETED, start_time := Some ''t1'', end_time := Some ''t2''\<rparr>]
   \<and> runs ex_done = [(''r1'', 0)] \<and> spawned ex_done = []"
  by (simp add: ex_done_def run_simulation_def get_scenario_def save_scenario_def Let_def
        set_run_def ex_alpha_world init_world_def ex_env_def ex_run_def ex_lib_def ex_scenario_def)

lemma ex_running_runs:
  "run_objects ex_running
     = [ex_run\<lparr>status := RUNNING, start_time := Some ''t1'', pid := Some 4242,
               log_file := ''simulation_output/alpha/simulation.log''\<rparr>]
   \<and> runs ex_running = [(''r1'', 0)]
   \<and> spawned ex_running
       = [(4242, [''/opt/afsim/bin/mission'', ''scenarios/alpha.afsim''], ''simulation_output/alpha'')]"
  by (simp add: ex_running_def ex_configured_def set_afsim_binary_def run_simulation_def
        get_scenario_def save_scenario_def Let_def
        set_run_def ex_alpha_world init_world_def ex_env_def ex_run_def ex_lib_def ex_scenario_def)

lemma ex_long_world:
  "ex_long = (init_world ''scenarios'' [] ''simulation_output'' [])
               \<lparr>active_scenarios :=
                  [(''s1'', ex_scenario\<lparr>Scenario.name := replicate 300 (CHR ''a'')\<rparr>)]\<rparr>"
  by (simp add: ex_long_def create_scenario_def init_world_def Let_def ex_scenario_def)

text \<open>
  C6, as the code has it. For a registered scenario whose file \<open>save_scenario\<close> can
  write (its directory is made and the text written) and whose output directory can be
  made, \<open>run_simulation\<close> with \<open>dry_run\<close> true, or with no binary configured, raises
  nothing and returns a new run object, registered under its run id, whose status is
  COMPLETED, whose start and end times are both set (to the clock at the two calls of
  \<open>_now\<close>) and whose process id is \<open>None\<close>. No process is spawned. The disk is the one
  \<open>save_scenario\<close> left: it holds the rendered scenario at the default path, which is
  also the run's \<open>scenario_file\<close>.
\<close>

theorem dry_run_completes:
  assumes reg: "map_of (active_scenarios w) sid = Some s"
    and dry: "dry_run \<or> afsim_binary w = []"
    and saved: "save_mkdir env = Succeeded \<and> save_write env = Written"
    and outdir: "out_mkdir env = Succeeded"
  shows "\<exists>a w'. run_simulation L w sid extra_args dry_run env = (Inr a, w')
           \<and> a = length (run_objects w) \<and> a < length (run_objects w')
           \<and> map_of (runs w') (new_uuid env) = Some a
           \<and> status (run_objects w' ! a) = COMPLETED
           \<and> start_time (run_objects w' ! a) = Some (now1 env)
           \<and> end_time (run_objects w' ! a) = Some (now2 env)
           \<and> pid (run_objects w' ! a) = None
           \<and> spawned w' = spawned w
           \<and> scenario_file (run_objects w' ! a)
                = path_join L (scenarios_dir w) (Scenario.name s @ ''.afsim'')
           \<and> disk w' = disk (snd (save_scenario L w sid None Succeeded Written))
           \<and> map_of (disk w') (path_join L (scenarios_dir w) (Scenario.name s @ ''.afsim''))
                = Some (Text (Scenario_to_afsim L s))"
  using reg dry saved outdir
  by (auto simp add: run_simulation_def get_scenario_def save_scenario_registered Let_def
        set_run_def update_conv')

theorem dry_run_completes_witness:
  "map_of (active_scenarios ex_alpha) ''s1'' = Some ex_scenario
   \<and> (True \<or> afsim_binary ex_alpha = [])
   \<and> (save_mkdir ex_env = Succeeded \<and> save_write ex_env = Written)
   \<and> out_mkdir ex_env = Succeeded
   \<and> fst (run_simulation ex_lib ex_alpha ''s1'' None True ex_env) = Inr 0
   \<and> status (run_objects ex_done ! 0) = COMPLETED
   \<and> start_time (run_objects ex_done ! 0) = Some ''t1''
   \<and> end_time (run_objects ex_done ! 0) = Some ''t2''
   \<and> pid (run_objects ex_done ! 0) = None
   \<and> spawned ex_done = []
   \<and> map_of (disk ex_done) ''scenarios/alpha.afsim''
       = Some (Text (Scenario_to_afsim ex_lib ex_scenario))"
proof -
  have h: "map_of (active_scenarios ex_alpha) ''s1'' = Some ex_scenario"
    by (simp add: ex_alpha_world)
  have d: "True \<or> afsim_binary ex_alpha = []" by simp
  have sv: "save_mkdir ex_env = Succeeded \<and> save_write ex_env = Written"
    and od: "out_mkdir ex_env = Succeeded"
    by (simp_all add: ex_env_def)
  from dry_run_completes [OF h d sv od, of ex_lib None]
  obtain a w' where r: "run_simulation ex_lib ex_alpha ''s1'' None True ex_env = (Inr a, w')"
    and a: "a = length (run_objects ex_alpha)"
    and st: "status (run_objects w' ! a) = COMPLETED"
    and t1: "start_time (run_objects w' ! a) = Some (now1 ex_env)"
    and t2: "end_time (run_objects w' ! a) = Some (now2 ex_env)"
    and np: "pid (run_objects w' ! a) = None"
    and sp: "spawned w' = spawned ex_alpha"
    and f: "map_of (disk w') (path_join ex_lib (scenarios_dir ex_alpha) (Scenario.name ex_scenario @ ''.afsim''))
              = Some (Text (Scenario_to_afsim ex_lib ex_scenario))"
    by blast
  from r have w': "w' = ex_done" by (simp add: ex_done_def)
  have p: "path_join ex_lib (scenarios_dir ex_alpha) (Scenario.name ex_scenario @ ''.afsim'')
             = ''scenarios/alpha.afsim''"
    by (simp add: ex_lib_def ex_alpha_world init_world_def ex_scenario_def)
  from a have a0: "a = 0" by (simp add: ex_alpha_world init_world_def)
  have e: "now1 ex_env = ''t1''" "now2 ex_env = ''t2''" "spawned ex_alpha = []"
    by (simp_all add: ex_env_def ex_alpha_world init_world_def)
  show ?thesis using h sv od r a0 st t1 t2 np sp f w' p e by simp
qed

text \<open>
  C6 as stated fails when the scenario cannot be persisted. The scenario named with 300
  letters is registered; its file name is too long, \<open>write_text\<close> raises, and the dry
  run raises the same error instead of returning a run: no run object exists and none is
  registered afterwards.
\<close>

theorem dry_run_unwritable_counterexample:
  "map (\<lambda>(k, s). (k, length (Scenario.name s))) (active_scenarios ex_long) = [(''s1'', 300)]
   \<and> save_write ex_env_refused = WriteRaised ex_name_too_long None
   \<and> run_simulation ex_lib ex_long ''s1'' None True ex_env_refused
       = (Inl ex_name_too_long, ex_long)
   \<and> run_objects ex_long = []
   \<and> runs ex_long = []"
  by (simp add: ex_long_world run_simulation_def save_scenario_def get_scenario_def Let_def
        ex_env_refused_def ex_env_def init_world_def)




section \<open>Terminal states\<close>

lemma run_objects_save_scenario [simp]:
  "run_objects (snd (save_scenario L w sid fp mk wr)) = run_objects w"
  by (simp add: save_scenario_def Let_def
        split: sum.splits io_outcome.splits write_outcome.splits option.splits)

lemma run_simulation_extends:
  "\<exists>new. run_objects (snd (run_simulation L w sid extra_args dry_run env)) = run_objects w @ new"
proof (cases "get_scenario w sid")
  case (Inl e)
  then show ?thesis by (simp add: run_simulation_def)
next
  case (Inr s)
  obtain r w1 where sv: "save_scenario L w sid None (save_mkdir env) (save_write env) = (r, w1)"
    by (cases "save_scenario L w sid None (save_mkdir env) (save_write env)")
  have ro: "run_objects w1 = run_objects w"
    using run_objects_save_scenario [of L w sid None "save_mkdir env" "save_write env"] sv
    by simp
  show ?thesis
    using Inr sv ro
    by (cases r)
      (simp_all add: run_simulation_def Let_def set_run_def
         split: spawn_outcome.splits io_outcome.splits)
qed

lemma stop_keeps_others:
  assumes "a < length (run_objects w)" and "status (run_objects w ! a) \<noteq> RUNNING"
  shows "run_objects (snd (stop_simulation w rid sig now)) ! a = run_objects w ! a
       \<and> length (run_objects (snd (stop_simulation w rid sig now))) = length (run_objects w)"
proof (cases "map_of (runs w) rid")
  case None
  then show ?thesis by (simp add: stop_simulation_def get_run_def)
next
  case (Some a')
  show ?thesis
  proof (cases "a' = a")
    case True
    with Some assms show ?thesis by (simp add: stop_simulation_def get_run_def)
  next
    case False
    with Some show ?thesis
      by (simp add: stop_simulation_def get_run_def set_run_def Let_def
            split: option.splits signal_outcome.splits)
  qed
qed

lemma refresh_not_running: "status r \<noteq> RUNNING \<Longrightarrow> refresh_status r probe now = Inr r"
  by (simp add: refresh_status_def)

lemma status_keeps_others:
  assumes "a < length (run_objects w)" and "status (run_objects w ! a) \<noteq> RUNNING"
  shows "run_objects (snd (get_run_status w rid probe now)) ! a = run_objects w ! a
       \<and> length (run_objects (snd (get_run_status w rid probe now))) = length (run_objects w)"
proof (cases "map_of (runs w) rid")
  case None
  then show ?thesis by (simp add: get_run_status_def get_run_def)
next
  case (Some a')
  show ?thesis
  proof (cases "a' = a")
    case True
    with Some assms show ?thesis
      by (simp add: get_run_status_def get_run_def refresh_not_running set_run_def)
  next
    case False
    with Some show ?thesis
      by (simp add: get_run_status_def get_run_def set_run_def split: sum.splits)
  qed
qed

lemma terminal_not_running: "terminal s \<Longrightarrow> s \<noteq> RUNNING"
  by (auto simp: terminal_def)

lemma serve_keeps_terminal:
  assumes "a < length (run_objects w)" and "terminal (status (run_objects w ! a))"
  shows "a < length (run_objects (serve L w r)) \<and> run_objects (serve L w r) ! a = run_objects w ! a"
proof (cases r)
  case (Run sid extra_args dry_run env)
  obtain new where "run_objects (serve L w r) = run_objects w @ new"
    using run_simulation_extends [of L w sid extra_args dry_run env] Run by auto
  with assms show ?thesis by (simp add: nth_append)
next
  case (Stop rid sig now)
  with stop_keeps_others [OF assms(1) terminal_not_running [OF assms(2)], of rid sig now] assms(1)
  show ?thesis by simp
next
  case (Status rid probe now)
  with status_keeps_others [OF assms(1) terminal_not_running [OF assms(2)], of rid probe now] assms(1)
  show ?thesis by simp
qed

lemma serve_all_keeps_terminal:
  "a < length (run_objects w) \<Longrightarrow> terminal (status (run_objects w ! a)) \<Longrightarrow>
     a < length (run_objects (serve_all L w rs))
     \<and> run_objects (serve_all L w rs) ! a = run_objects w ! a"
proof (induction rs arbitrary: w)
  case Nil
  then show ?case by simp
next
  case (Cons r rs)
  from serve_keeps_terminal [OF Cons.prems, of L r]
  have 1: "a < length (run_objects (serve L w r))"
    and 2: "run_objects (serve L w r) ! a = run_objects w ! a" by simp_all
  from Cons.prems(2) 2 have 3: "terminal (status (run_objects (serve L w r) ! a))" by simp
  from Cons.IH [OF 1 3] 2 show ?case by simp
qed

text \<open>
  C3. A run object whose status is COMPLETED, FAILED or STOPPED is left exactly as it is,
  status included, by every sequence of run, stop and status requests, whatever the
  operating system answers. \<open>stop_simulation\<close> on a run that is not RUNNING returns the
  run and changes nothing; \<open>_refresh_status\<close> returns a run that is not RUNNING as it
  is, and so does \<open>get_run_status\<close>.
\<close>

theorem terminal_is_final:
  "(\<forall>a. a < length (run_objects w) \<and> terminal (status (run_objects w ! a)) \<longrightarrow>
        a < length (run_objects (serve_all L w rs))
      \<and> run_objects (serve_all L w rs) ! a = run_objects w ! a
      \<and> status (run_objects (serve_all L w rs) ! a) = status (run_objects w ! a))
   \<and> (\<forall>a. map_of (runs w) rid = Some a \<and> status (run_objects w ! a) \<noteq> RUNNING \<longrightarrow>
        stop_simulation w rid sig now = (Inr a, w))
   \<and> (status r \<noteq> RUNNING \<longrightarrow> refresh_status r probe now = Inr r)
   \<and> (\<forall>a. map_of (runs w) rid = Some a \<and> a < length (run_objects w)
          \<and> status (run_objects w ! a) \<noteq> RUNNING \<longrightarrow>
        get_run_status w rid probe now = (Inr (run_objects w ! a), w))"
proof (intro conjI allI impI)
  fix a
  assume h: "a < length (run_objects w) \<and> terminal (status (run_objects w ! a))"
  from serve_all_keeps_terminal [of a w L rs] h
  show "a < length (run_objects (serve_all L w rs))"
    and "run_objects (serve_all L w rs) ! a = run_objects w ! a"
    and "status (run_objects (serve_all L w rs) ! a) = status (run_objects w ! a)"
    by simp_all
next
  fix a
  assume "map_of (runs w) rid = Some a \<and> status (run_objects w ! a) \<noteq> RUNNING"
  then show "stop_simulation w rid sig now = (Inr a, w)"
    by (simp add: stop_simulation_def get_run_def)
next
  assume "status r \<noteq> RUNNING"
  then show "refresh_status r probe now = Inr r" by (rule refresh_not_running)
next
  fix a
  assume "map_of (runs w) rid = Some a \<and> a < length (run_objects w)
          \<and> status (run_objects w ! a) \<noteq> RUNNING"
  then show "get_run_status w rid probe now = (Inr (run_objects w ! a), w)"
    by (simp add: get_run_status_def get_run_def refresh_not_running set_run_def)
qed

theorem terminal_is_final_witness:
  "0 < length (run_objects ex_done)
   \<and> terminal (status (run_objects ex_done ! 0))
   \<and> status (run_objects
        (serve_all ex_lib ex_done
           [Stop ''r1'' Delivered ''t3'', Status ''r1'' NoSuchProcess ''t4'',
            Run ''s1'' None False (ex_env\<lparr>new_uuid := ''r2''\<rparr>), Stop ''r1'' NoSuchProcess ''t5'']) ! 0) = COMPLETED
   \<and> stop_simulation ex_done ''r1'' Delivered ''t3'' = (Inr 0, ex_done)
   \<and> refresh_status (run_objects ex_done ! 0) NoSuchProcess ''t3'' = Inr (run_objects ex_done ! 0)"
proof -
  let ?rs = "[Stop ''r1'' Delivered ''t3'', Status ''r1'' NoSuchProcess ''t4'',
              Run ''s1'' None False (ex_env\<lparr>new_uuid := ''r2''\<rparr>), Stop ''r1'' NoSuchProcess ''t5'']"
  have l: "0 < length (run_objects ex_done)" by (simp add: ex_done_runs)
  have s: "status (run_objects ex_done ! 0) = COMPLETED" by (simp add: ex_done_runs)
  then have t: "terminal (status (run_objects ex_done ! 0))" by (simp add: terminal_def)
  have m: "map_of (runs ex_done) ''r1'' = Some 0" by (simp add: ex_done_runs)
  have n: "status (run_objects ex_done ! 0) \<noteq> RUNNING" using s by simp
  note fin = terminal_is_final [of ex_done ex_lib ?rs "''r1''" Delivered "''t3''"
      "run_objects ex_done ! 0" NoSuchProcess]
  from fin l t have "status (run_objects (serve_all ex_lib ex_done ?rs) ! 0)
                       = status (run_objects ex_done ! 0)" by blast
  moreover from fin m n have "stop_simulation ex_done ''r1'' Delivered ''t3'' = (Inr 0, ex_done)"
    by blast
  moreover from fin n have "refresh_status (run_objects ex_done ! 0) NoSuchProcess ''t3''
                              = Inr (run_objects ex_done ! 0)" by blast
  ultimately show ?thesis using l t s by simp
qed

section \<open>Failures of the external process\<close>

text \<open>
  C8, as the code has it. In the branch of \<open>run_simulation\<close> that spawns (a real run
  of a registered scenario with a configured binary that exists, reached once the scenario
  file is written and the output directory made), the call raises nothing and returns the
  new run; when opening the log file or \<open>Popen\<close> raises, the run's
  status is FAILED, its error message is the text of the exception, it has no process id
  and no process is recorded. In \<open>stop_simulation\<close> on a running run with a process id,
  a termination signal that fails because the process is gone is caught too, but the run
  becomes COMPLETED with its end time set and its error message is left as it was.
\<close>

theorem process_failures_contained:
  "(\<forall>s. map_of (active_scenarios w) sid = Some s \<and> \<not> dry_run \<and> afsim_binary w \<noteq> []
          \<and> binary_exists env
          \<and> save_mkdir env = Succeeded \<and> save_write env = Written
          \<and> out_mkdir env = Succeeded \<longrightarrow>
      (\<exists>a w'. run_simulation L w sid extra_args dry_run env = (Inr a, w')
         \<and> a = length (run_objects w) \<and> a < length (run_objects w')
         \<and> (\<forall>msg. spawn env = OpenFailed msg \<or> spawn env = PopenFailed msg \<longrightarrow>
               status (run_objects w' ! a) = FAILED
             \<and> error_message (run_objects w' ! a) = msg
             \<and> pid (run_objects w' ! a) = None
             \<and> spawned w' = spawned w)))
   \<and> (\<forall>a p. map_of (runs w) rid = Some a \<and> a < length (run_objects w)
          \<and> status (run_objects w ! a) = RUNNING \<and> pid (run_objects w ! a) = Some p \<longrightarrow>
        (\<exists>w'. stop_simulation w rid NoSuchProcess now = (Inr a, w')
           \<and> run_objects w' ! a
               = (run_objects w ! a)\<lparr>status := COMPLETED, end_time := Some now\<rparr>
           \<and> status (run_objects w' ! a) = COMPLETED
           \<and> end_time (run_objects w' ! a) = Some now
           \<and> error_message (run_objects w' ! a) = error_message (run_objects w ! a)))"
proof (intro conjI allI impI)
  fix s
  assume h: "map_of (active_scenarios w) sid = Some s \<and> \<not> dry_run \<and> afsim_binary w \<noteq> []
          \<and> binary_exists env
          \<and> save_mkdir env = Succeeded \<and> save_write env = Written
          \<and> out_mkdir env = Succeeded"
  then have reg: "map_of (active_scenarios w) sid = Some s" by simp
  show "\<exists>a w'. run_simulation L w sid extra_args dry_run env = (Inr a, w')
         \<and> a = length (run_objects w) \<and> a < length (run_objects w')
         \<and> (\<forall>msg. spawn env = OpenFailed msg \<or> spawn env = PopenFailed msg \<longrightarrow>
               status (run_objects w' ! a) = FAILED
             \<and> error_message (run_objects w' ! a) = msg
             \<and> pid (run_objects w' ! a) = None
             \<and> spawned w' = spawned w)"
    using h
    by (cases "spawn env")
      (simp_all add: run_simulation_def get_scenario_def save_scenario_registered [OF reg]
         Let_def set_run_def)
next
  fix a p
  assume "map_of (runs w) rid = Some a \<and> a < length (run_objects w)
          \<and> status (run_objects w ! a) = RUNNING \<and> pid (run_objects w ! a) = Some p"
  then show "\<exists>w'. stop_simulation w rid NoSuchProcess now = (Inr a, w')
           \<and> run_objects w' ! a
               = (run_objects w ! a)\<lparr>status := COMPLETED, end_time := Some now\<rparr>
           \<and> status (run_objects w' ! a) = COMPLETED
           \<and> end_time (run_objects w' ! a) = Some now
           \<and> error_message (run_objects w' ! a) = error_message (run_objects w ! a)"
    by (simp add: stop_simulation_def get_run_def set_run_def Let_def)
qed

theorem process_failures_contained_witness:
  "map_of (active_scenarios ex_configured) ''s1'' = Some ex_scenario
   \<and> afsim_binary ex_configured \<noteq> [] \<and> binary_exists ex_env
   \<and> save_mkdir ex_env = Succeeded \<and> save_write ex_env = Written
   \<and> out_mkdir ex_env = Succeeded
   \<and> fst (run_simulation ex_lib ex_configured ''s1'' None False
            (ex_env\<lparr>spawn := PopenFailed ''[Errno 13] Permission denied''\<rparr>)) = Inr 0
   \<and> status (run_objects (snd (run_simulation ex_lib ex_configured ''s1'' None False
            (ex_env\<lparr>spawn := PopenFailed ''[Errno 13] Permission denied''\<rparr>))) ! 0) = FAILED
   \<and> error_message (run_objects (snd (run_simulation ex_lib ex_configured ''s1'' None False
            (ex_env\<lparr>spawn := PopenFailed ''[Errno 13] Permission denied''\<rparr>))) ! 0)
       = ''[Errno 13] Permission denied''
   \<and> map_of (runs ex_running) ''r1'' = Some 0
   \<and> status (run_objects ex_running ! 0) = RUNNING
   \<and> pid (run_objects ex_running ! 0) = Some 4242
   \<and> fst (stop_simulation ex_running ''r1'' NoSuchProcess ''t3'') = Inr 0
   \<and> status (run_objects (snd (stop_simulation ex_running ''r1'' NoSuchProcess ''t3'')) ! 0)
       = COMPLETED"
proof -
  let ?env = "ex_env\<lparr>spawn := PopenFailed ''[Errno 13] Permission denied''\<rparr>"
  have h: "map_of (active_scenarios ex_configured) ''s1'' = Some ex_scenario"
    by (simp add: ex_configured_def set_afsim_binary_def ex_alpha_world)
  have c: "afsim_binary ex_configured \<noteq> []"
    by (simp add: ex_configured_def set_afsim_binary_def)
  have e: "binary_exists ?env" "binary_exists ex_env" by (simp_all add: ex_env_def)
  have sp: "spawn ?env = PopenFailed ''[Errno 13] Permission denied''" by simp
  have l0: "length (run_objects ex_configured) = 0"
    by (simp add: ex_configured_def set_afsim_binary_def ex_alpha_world init_world_def)
  note run_part = process_failures_contained [where w = ex_configured and sid = "''s1''"
      and dry_run = False and env = ?env and L = ex_lib and extra_args = None,
      THEN conjunct1, rule_format, of ex_scenario]
  have io: "save_mkdir ?env = Succeeded" "save_write ?env = Written" "out_mkdir ?env = Succeeded"
    by (simp_all add: ex_env_def)
  from run_part h c e(1) io
  obtain a w' where r: "run_simulation ex_lib ex_configured ''s1'' None False ?env = (Inr a, w')"
    and a: "a = length (run_objects ex_configured)"
    and f: "\<forall>msg. spawn ?env = OpenFailed msg \<or> spawn ?env = PopenFailed msg \<longrightarrow>
               status (run_objects w' ! a) = FAILED
             \<and> error_message (run_objects w' ! a) = msg
             \<and> pid (run_objects w' ! a) = None
             \<and> spawned w' = spawned ex_configured"
    by blast
  from f sp have f': "status (run_objects w' ! a) = FAILED
      \<and> error_message (run_objects w' ! a) = ''[Errno 13] Permission denied''"
    by blast
  have m: "map_of (runs ex_running) ''r1'' = Some 0"
    and l: "0 < length (run_objects ex_running)"
    and s: "status (run_objects ex_running ! 0) = RUNNING"
    and p: "pid (run_objects ex_running ! 0) = Some 4242"
    by (simp_all add: ex_running_runs ex_run_def)
  note stop_part = process_failures_contained [where w = ex_running and rid = "''r1''"
      and now = "''t3''", THEN conjunct2, rule_format, of 0 4242]
  from stop_part m l s p
  obtain w2 where "stop_simulation ex_running ''r1'' NoSuchProcess ''t3'' = (Inr 0, w2)"
    and "status (run_objects w2 ! 0) = COMPLETED"
    by blast
  with h c e r a l0 f' m s p io show ?thesis by simp
qed

text \<open>
  C8 as stated fails for \<open>stop_simulation\<close>. The run started with process id 4242 is
  RUNNING; when the termination signal finds no such process, the run is recorded as
  COMPLETED, not FAILED, and its error message stays empty.
\<close>

theorem stop_gone_process_counterexample:
  "map_of (runs ex_running) ''r1'' = Some 0
   \<and> status (run_objects ex_running ! 0) = RUNNING
   \<and> pid (run_objects ex_running ! 0) = Some 4242
   \<and> fst (stop_simulation ex_running ''r1'' NoSuchProcess ''t3'') = Inr 0
   \<and> status (run_objects (snd (stop_simulation ex_running ''r1'' NoSuchProcess ''t3'')) ! 0)
       = COMPLETED
   \<and> status (run_objects (snd (stop_simulation ex_running ''r1'' NoSuchProcess ''t3'')) ! 0)
       \<noteq> FAILED
   \<and> error_message (run_objects (snd (stop_simulation ex_running ''r1'' NoSuchProcess ''t3'')) ! 0)
       = []"
  by (simp add: ex_running_runs stop_simulation_def get_run_def set_run_def Let_def ex_run_def)

section \<open>Loading a structured file without an identifier\<close>

lemma from_dict_default_id:
  assumes "scenario_from_dict (JObj kvs) = Inr s" and "map_of kvs ''scenario_id'' = None"
  shows "scenario_id s = []"
  using assms
  by (auto simp add: scenario_from_dict_def bind_err_def dict_get_def as_str_def
        split: sum.splits)

lemma load_json_result:
  assumes "map_of (disk w) path = Some (Json data)"
    and "load_scenario_json w path = (Inr s, w')"
  shows "\<exists>s0. scenario_from_dict data = Inr s0 \<and> s = s0\<lparr>file_path := Some path\<rparr>
           \<and> w' = w\<lparr>active_scenarios := AList.update (scenario_id s0) s (active_scenarios w)\<rparr>"
  using assms
  by (auto simp add: load_scenario_json_def Let_def split: sum.splits)

lemma load_without_id_step:
  assumes f: "map_of (disk w) path = Some (Json (JObj kvs))"
    and n: "map_of kvs ''scenario_id'' = None"
    and l: "load_scenario_json w path = (Inr s, w')"
  shows "scenario_id s = [] \<and> w' = w\<lparr>active_scenarios := AList.update [] s (active_scenarios w)\<rparr>"
proof -
  from load_json_result [OF f l] obtain s0 where
    s0: "scenario_from_dict (JObj kvs) = Inr s0" and s: "s = s0\<lparr>file_path := Some path\<rparr>"
    and w': "w' = w\<lparr>active_scenarios := AList.update (scenario_id s0) s (active_scenarios w)\<rparr>"
    by blast
  from from_dict_default_id [OF s0 n] have "scenario_id s0 = []" .
  with s w' show ?thesis by simp
qed

text \<open>
  C10. When a structured file's top-level object has no \<open>scenario_id\<close> and
  \<open>load_scenario_json\<close> returns a scenario, that scenario's identifier is the empty
  string and the registry holds it under the empty string. When two such files are loaded
  one after the other, both scenarios have the empty identifier, and the second load puts
  its scenario in the place of the first under that key: the registry's keys are the same
  before and after the second load.
\<close>

theorem load_without_scenario_id:
  "(\<forall>kvs s w'. map_of (disk w) path = Some (Json (JObj kvs))
        \<and> map_of kvs ''scenario_id'' = None
        \<and> load_scenario_json w path = (Inr s, w') \<longrightarrow>
        scenario_id s = [] \<and> map_of (active_scenarios w') [] = Some s)
   \<and> (\<forall>kvs1 kvs2 s1 w1 s2 w2.
          map_of (disk w) path = Some (Json (JObj kvs1)) \<and> map_of kvs1 ''scenario_id'' = None
        \<and> map_of (disk w) path2 = Some (Json (JObj kvs2)) \<and> map_of kvs2 ''scenario_id'' = None
        \<and> load_scenario_json w path = (Inr s1, w1)
        \<and> load_scenario_json w1 path2 = (Inr s2, w2) \<longrightarrow>
        scenario_id s1 = [] \<and> scenario_id s2 = []
        \<and> map_of (active_scenarios w1) [] = Some s1
        \<and> map_of (active_scenarios w2) [] = Some s2
        \<and> map fst (active_scenarios w2) = map fst (active_scenarios w1)
        \<and> active_scenarios w2 = AList.update [] s2 (active_scenarios w1))"
proof (intro conjI allI impI)
  fix kvs s w'
  assume h: "map_of (disk w) path = Some (Json (JObj kvs))
        \<and> map_of kvs ''scenario_id'' = None
        \<and> load_scenario_json w path = (Inr s, w')"
  from load_without_id_step [of w path kvs s w'] h
  show "scenario_id s = []" and "map_of (active_scenarios w') [] = Some s"
    by (simp_all add: update_conv')
next
  fix kvs1 kvs2 s1 w1 s2 w2
  assume h: "map_of (disk w) path = Some (Json (JObj kvs1)) \<and> map_of kvs1 ''scenario_id'' = None
        \<and> map_of (disk w) path2 = Some (Json (JObj kvs2)) \<and> map_of kvs2 ''scenario_id'' = None
        \<and> load_scenario_json w path = (Inr s1, w1)
        \<and> load_scenario_json w1 path2 = (Inr s2, w2)"
  from load_without_id_step [of w path kvs1 s1 w1] h
  have 1: "scenario_id s1 = []"
    and w1: "w1 = w\<lparr>active_scenarios := AList.update [] s1 (active_scenarios w)\<rparr>"
    by simp_all
  from w1 h have "map_of (disk w1) path2 = Some (Json (JObj kvs2))" by simp
  from load_without_id_step [OF this, of s2 w2] h
  have 2: "scenario_id s2 = []"
    and w2: "w2 = w1\<lparr>active_scenarios := AList.update [] s2 (active_scenarios w1)\<rparr>"
    by simp_all
  have k: "[] \<in> fst ` set (active_scenarios w1)"
    using w1 by (simp add: dom_update)
  show "scenario_id s1 = []" "scenario_id s2 = []" by (fact 1, fact 2)
  show "map_of (active_scenarios w1) [] = Some s1" using w1 by (simp add: update_conv')
  show "map_of (active_scenarios w2) [] = Some s2" using w2 by (simp add: update_conv')
  show "map fst (active_scenarios w2) = map fst (active_scenarios w1)"
    using w2 k by (simp add: update_keys)
  show "active_scenarios w2 = AList.update [] s2 (active_scenarios w1)" using w2 by simp
qed

theorem load_without_scenario_id_witness:
  "map_of (disk ex_no_id) ''a.json'' = Some (Json (JObj [(''name'', JStr ''first'')]))
   \<and> map_of [(''name'', JStr ''first'')] ''scenario_id'' = None
   \<and> fst (load_scenario_json ex_no_id ''a.json'')
       = Inr \<lparr>Scenario.name = ''first'', scenario_id = [], description = [],
               duration_s = PyFloat 3600, time_step_s = PyFloat 1, platforms = [],
               parameters = [], file_path = Some ''a.json''\<rparr>
   \<and> active_scenarios (snd (load_scenario_json (snd (load_scenario_json ex_no_id ''a.json'')) ''b.json''))
       = [([], \<lparr>Scenario.name = ''second'', scenario_id = [], description = [],
               duration_s = PyInt 60, time_step_s = PyFloat 1, platforms = [],
               parameters = [], file_path = Some ''b.json''\<rparr>)]"
proof -
  let ?s1 = "\<lparr>Scenario.name = ''first'', scenario_id = [], description = [],
               duration_s = PyFloat 3600, time_step_s = PyFloat 1, platforms = [],
               parameters = [], file_path = Some ''a.json''\<rparr>"
  let ?s2 = "\<lparr>Scenario.name = ''second'', scenario_id = [], description = [],
               duration_s = PyInt 60, time_step_s = PyFloat 1, platforms = [],
               parameters = [], file_path = Some ''b.json''\<rparr>"
  let ?w1 = "ex_no_id\<lparr>active_scenarios := [([], ?s1)]\<rparr>"
  let ?w2 = "ex_no_id\<lparr>active_scenarios := [([], ?s2)]\<rparr>"
  have fa: "map_of (disk ex_no_id) ''a.json'' = Some (Json (JObj [(''name'', JStr ''first'')]))"
    and fb: "map_of (disk ex_no_id) ''b.json''
        = Some (Json (JObj [(''name'', JStr ''second''), (''duration_s'', JNum (PyInt 60))]))"
    by (simp_all add: ex_no_id_def init_world_def)
  have na: "map_of [(''name'', JStr ''first'')] ''scenario_id'' = None"
    and nb: "map_of [(''name'', JStr ''second''), (''duration_s'', JNum (PyInt 60))] ''scenario_id'' = None"
    by simp_all
  have la: "load_scenario_json ex_no_id ''a.json'' = (Inr ?s1, ?w1)"
    by (simp add: load_scenario_json_def fa scenario_from_dict_def bind_err_def dict_get_def
          dict_item_def iter_json_def as_str_def as_num_def as_params_def Let_def
          ex_no_id_def init_world_def)
  have lb: "load_scenario_json ?w1 ''b.json'' = (Inr ?s2, ?w2)"
    by (simp add: load_scenario_json_def scenario_from_dict_def bind_err_def dict_get_def
          dict_item_def iter_json_def as_str_def as_num_def as_params_def Let_def
          ex_no_id_def init_world_def)
  from load_without_scenario_id [of ex_no_id "''a.json''" "''b.json''", THEN conjunct2, rule_format,
      of "[(''name'', JStr ''first'')]"
         "[(''name'', JStr ''second''), (''duration_s'', JNum (PyInt 60))]" ?s1 ?w1 ?s2 ?w2]
    fa fb na nb la lb
  have "active_scenarios ?w2 = AList.update [] ?s2 (active_scenarios ?w1)"
    and "scenario_id ?s1 = []"
    by blast+
  with fa na la lb show ?thesis by simp
qed

end
